theory Spec2Isabelle
  imports Complex_Main "HOL-Library.Char_ord" "HOL-Library.List_Lexorder"
begin

section \<open>Data model\<close>

text \<open>
  The booking and restaurant documents of the store, with the fields the handlers read
  or write. Identifiers (ObjectId values, request parameters) are strings; guest counts
  and capacities are integers.
\<close>

datatype booking_status = Confirmed | Pending | Cancelled | Completed

record booking =
  bookingId :: string
  customerId :: string
  restaurantId :: string
  date :: string
  time :: string
  guests :: int
  specialRequests :: "string option"
  status :: booking_status

record opening_hours =
  open_time :: string
  close_time :: string

record restaurant =
  rid :: string
  name :: string
  ownerId :: string
  cuisine :: string
  location :: string
  priceRange :: int
  capacity :: int
  openingHours :: "(string \<times> opening_hours) list"
  geometry :: "(real \<times> real) option"
  isActive :: bool

record user =
  userId :: string
  email :: string

record review =
  reviewId :: string
  reviewCustomer :: string
  reviewRestaurant :: string
  rating :: int

text \<open>Errors thrown by the store layer and the helpers, as the catch blocks tell them apart.\<close>

datatype thrown = CastError | ValidationError string | NotFoundError string | OtherError string

section \<open>Responses\<close>

datatype slot = Slot (slot_time: string) (available: bool) (availableCapacity: int)
  (totalCapacity: int)

text \<open>
  The JSON bodies of the modelled handlers. \<open>ClosedBody\<close> is the body of the closed-day
  answer (restaurantId, date, availableSlots, message); \<open>AvailabilityBody\<close> carries
  restaurantId, restaurantName, date, dayOfWeek, openingHours, availableSlots and
  totalSlots; \<open>BookingBody\<close> is a message with the booking fields and the restaurant name;
  \<open>RestaurantBody\<close> is a restaurant document with the \<open>cache\<close> flag of a cached answer;
  \<open>ListBody\<close> is a restaurant listing with its total and the \<open>cache\<close> flag;
  \<open>NearbyBody\<close> is a nearby listing, each restaurant with its \<open>distance\<close> field, and
  the total. Fields that only echo the request or are derived from these (page, limit and
  page count, filters, the user's location, \<open>distanceKm\<close>, the message of the nearby
  answer) and the populated owner are left out.
\<close>

datatype payload =
    ErrorBody string
  | MessageBody string
  | ClosedBody string string "slot list" string
  | AvailabilityBody string string string string opening_hours "slot list" nat
  | BookingBody string booking "string option"
  | BookingListBody "booking list"
  | RestaurantBody restaurant bool
  | ListBody "restaurant list" int bool
  | NearbyBody "(restaurant \<times> real) list" int

text \<open>
  A response is either a call of one of the \<open>ResponseHelper\<close> senders (the helper module
  is not part of the sources, so the call itself is the response) or a direct
  \<open>res.status(code).json(body)\<close>.
\<close>

datatype response =
    SendValidationError string
  | SendNotFoundError string
  | SendConflictError string
  | SendError nat string
  | Json nat payload

section \<open>Store, caches and the helpers taken as parameters\<close>

text \<open>
  The query string of the restaurant listings (\<open>RestaurantQueryParams\<close>): every parameter
  is an optional string.
\<close>

record restaurant_query =
  q_location :: "string option"
  q_cuisine :: "string option"
  q_priceRange :: "string option"
  q_page :: "string option"
  q_limit :: "string option"
  q_latitude :: "string option"
  q_longitude :: "string option"
  q_radius :: "string option"

text \<open>
  The keys of the restaurant controller's cache: \<open>JSON.stringify(req.query)\<close> for the
  listing, \<open>restaurant_<id>\<close> for a single restaurant.
\<close>

datatype restaurant_query_key = BrowseKey restaurant_query | RestaurantKey string

text \<open>
  The store's collections, the two in-memory caches (one per controller module), the
  lines written by \<open>console.error\<close> and the calls made to the mailer. The caches' expiry
  is not modelled: an entry stays until a handler deletes or overwrites it.
\<close>

record state =
  restaurants :: "restaurant list"
  bookings :: "booking list"
  reviews :: "review list"
  users :: "user list"
  restaurantCache :: "restaurant_query_key \<rightharpoonup> payload"
  bookingCache :: "string \<rightharpoonup> payload"
  logs :: "string list"
  emailAttempts :: "(string \<times> booking) list"

text \<open>
  A booking's \<open>restaurantId\<close> after \<open>populate('restaurantId', 'name')\<close>: the restaurant
  document reduced to its id and name.
\<close>

record populated_restaurant =
  p_id :: string
  p_name :: string

record create_body =
  b_restaurantId :: string
  b_date :: string
  b_time :: string
  b_guests :: int
  b_specialRequests :: "string option"

text \<open>
  The functions of \<open>utils/booking-helpers\<close> and \<open>utils/email\<close> that the handlers call
  and whose code is not part of the sources, the outcome of the store's writes, the clock,
  the JavaScript parsers (\<open>None\<close> is \<open>NaN\<close> or an invalid \<open>Date\<close>), the store's
  regular-expression matcher (\<open>None\<close> for a pattern it rejects) and its geospatial
  index with its spherical distance in metres between two \<open>[longitude, latitude]\<close>
  points, and the string that a populated document becomes inside a template string
  (\<open>Document.prototype.toString\<close>) are parameters of the model.
\<close>

record env =
  getDayOfWeek :: "string \<Rightarrow> string"
  generateTimeSlots :: "string \<Rightarrow> string \<Rightarrow> string list"
  isTimeWithinHours :: "string \<Rightarrow> string \<Rightarrow> string \<Rightarrow> bool"
  validateAvailabilityInput :: "string \<Rightarrow> string \<Rightarrow> string option"
  validateCreateBookingInput :: "create_body \<Rightarrow> string option"
  findRestaurantById :: "restaurant list \<Rightarrow> string \<Rightarrow> thrown + restaurant"
  findUserById :: "user list \<Rightarrow> string \<Rightarrow> thrown + user"
  newObjectId :: "booking list \<Rightarrow> string"
  saveBooking :: "booking \<Rightarrow> thrown option"
  sendBookingConfirmationEmail :: "string \<Rightarrow> booking \<Rightarrow> string option"
  parseDateTime :: "string \<Rightarrow> int option"
  now :: int
  trim :: "string \<Rightarrow> string"
  validObjectId :: "string \<Rightarrow> bool"
  saveRestaurant :: "restaurant \<Rightarrow> thrown option"
  parseFloat :: "string \<Rightarrow> real option"
  parseInt :: "string \<Rightarrow> int option"
  regexMatch :: "string \<Rightarrow> (string \<Rightarrow> bool) option"
  geoIndexAvailable :: bool
  geoDistance :: "real \<times> real \<Rightarrow> real \<times> real \<Rightarrow> real"
  documentToString :: "populated_restaurant \<Rightarrow> string"

section \<open>Availability\<close>

definition availabilityKey :: "string \<Rightarrow> string \<Rightarrow> string" where
  "availabilityKey rId d = ''availability-'' @ rId @ ''-'' @ d"

text \<open>
  Modelled from the spec: \<open>TimeHelper.getOpeningHours\<close> is not part of the sources. The
  spec says the handler looks up the weekday's open/close pair in the restaurant's weekly
  opening-hours table; an absent pair is \<open>None\<close>.
\<close>

definition getOpeningHours :: "restaurant \<Rightarrow> string \<Rightarrow> opening_hours option" where
  "getOpeningHours restaurant dayOfWeek = map_of (openingHours restaurant) dayOfWeek"

text \<open>
  Modelled from the spec: \<open>TimeHelper.isRestaurantClosed\<close> is not part of the sources. The
  spec says the restaurant is closed that day if the pair is absent or its open and close
  times are equal.
\<close>

definition isRestaurantClosed :: "opening_hours option \<Rightarrow> bool" where
  "isRestaurantClosed h =
     (case h of None \<Rightarrow> True | Some oc \<Rightarrow> open_time oc = close_time oc)"

definition activeStatus :: "booking_status \<Rightarrow> bool" where
  "activeStatus s = (s = Confirmed \<or> s = Pending)"

text \<open>\<open>Booking.find({ restaurantId, date, status: { $in: ['confirmed', 'pending'] } })\<close>\<close>

definition findExistingBookings :: "booking list \<Rightarrow> string \<Rightarrow> string \<Rightarrow> booking list" where
  "findExistingBookings bs r d =
     filter (\<lambda>b. restaurantId b = r \<and> date b = d \<and> activeStatus (status b)) bs"

text \<open>
  The \<open>forEach\<close> loop that fills \<open>bookingCounts\<close>:
  \<open>bookingCounts[booking.time] = (bookingCounts[booking.time] || 0) + booking.guests\<close>.
\<close>

definition orZero :: "int option \<Rightarrow> int" where
  "orZero v = (case v of None \<Rightarrow> 0 | Some n \<Rightarrow> n)"

definition tally :: "(string \<rightharpoonup> int) \<Rightarrow> booking \<Rightarrow> (string \<rightharpoonup> int)" where
  "tally bookingCounts b = bookingCounts(time b \<mapsto> orZero (bookingCounts (time b)) + guests b)"

definition countBookings :: "booking list \<Rightarrow> (string \<rightharpoonup> int)" where
  "countBookings existingBookings = foldl tally Map.empty existingBookings"

definition slotFor :: "restaurant \<Rightarrow> (string \<rightharpoonup> int) \<Rightarrow> string \<Rightarrow> slot" where
  "slotFor restaurant bookingCounts t =
     (let bookedGuests = orZero (bookingCounts t);
          availableCapacity = capacity restaurant - bookedGuests
      in Slot t (availableCapacity > 0) availableCapacity (capacity restaurant))"

definition availabilityError :: "thrown \<Rightarrow> response" where
  "availabilityError err =
     (case err of
        CastError \<Rightarrow> SendValidationError ''Invalid restaurant ID''
      | NotFoundError m \<Rightarrow> SendNotFoundError m
      | _ \<Rightarrow> SendError 500 ''Failed to fetch availability'')"

definition logError :: "string \<Rightarrow> state \<Rightarrow> state" where
  "logError line st = st\<lparr>logs := logs st @ [line]\<rparr>"

definition getAvailability :: "env \<Rightarrow> string \<Rightarrow> string \<Rightarrow> state \<Rightarrow> response \<times> state" where
  "getAvailability e rId d st =
     (let cacheKey = availabilityKey rId d in
      case bookingCache st cacheKey of
        Some cachedAvailability \<Rightarrow> (Json 200 cachedAvailability, st)
      | None \<Rightarrow>
        (case validateAvailabilityInput e rId d of
           Some validationError \<Rightarrow> (SendValidationError validationError, st)
         | None \<Rightarrow>
           (case findRestaurantById e (restaurants st) rId of
              Inl err \<Rightarrow> (availabilityError err, logError ''Availability fetch error:'' st)
            | Inr restaurant \<Rightarrow>
              (let dayOfWeek = getDayOfWeek e d;
                   hours = getOpeningHours restaurant dayOfWeek
               in if isRestaurantClosed hours
                  then (Json 200 (ClosedBody rId d []
                          (''Restaurant is closed on '' @ dayOfWeek)), st)
                  else
                    (case hours of
                       None \<Rightarrow> (availabilityError (OtherError ''TypeError''),
                                 logError ''Availability fetch error:'' st)
                     | Some oc \<Rightarrow>
                       (let timeSlots = generateTimeSlots e (open_time oc) (close_time oc);
                            existingBookings =
                              findExistingBookings (bookings st) rId d;
                            bookingCounts = countBookings existingBookings;
                            availableSlots = map (slotFor restaurant bookingCounts) timeSlots;
                            body = AvailabilityBody rId (name restaurant) d
                                     dayOfWeek oc availableSlots (length timeSlots)
                        in (Json 200 body,
                            st\<lparr>bookingCache := (bookingCache st)(cacheKey \<mapsto> body)\<rparr>)))))))"

section \<open>Booking creation\<close>

definition handleBookingError :: "thrown \<Rightarrow> response" where
  "handleBookingError err =
     (case err of
        CastError \<Rightarrow> SendValidationError ''Invalid ID format''
      | ValidationError m \<Rightarrow> SendValidationError (''Validation error: '' @ m)
      | NotFoundError m \<Rightarrow> SendNotFoundError m
      | OtherError m \<Rightarrow> SendError 500 ''An unexpected error occurred'')"

text \<open>The decimal rendering of a number inside a template string.\<close>

fun digitsOf :: "nat \<Rightarrow> string" where
  "digitsOf n =
     (if n < 10 then [''0123456789'' ! n]
      else digitsOf (n div 10) @ [''0123456789'' ! (n mod 10)])"

definition showInt :: "int \<Rightarrow> string" where
  "showInt i = (if i < 0 then ''-'' @ digitsOf (nat (- i)) else digitsOf (nat i))"

text \<open>
  The aggregate of \<open>createBooking\<close>: \<open>$match\<close> on restaurant, date, time and status, then
  \<open>$group\<close> with \<open>$sum\<close>; no matching document gives an empty result, read as 0 by
  \<open>existingBookingsCount[0]?.totalGuests || 0\<close>.
\<close>

definition aggregateTotalGuests :: "booking list \<Rightarrow> string \<Rightarrow> string \<Rightarrow> string \<Rightarrow> int list" where
  "aggregateTotalGuests bs r d t =
     (let matched = filter (\<lambda>b. restaurantId b = r \<and> date b = d \<and> time b = t \<and>
                                   activeStatus (status b)) bs
      in if matched = [] then [] else [sum_list (map guests matched)])"

definition bookedGuestsOf :: "int list \<Rightarrow> int" where
  "bookedGuestsOf existingBookingsCount =
     (case existingBookingsCount of [] \<Rightarrow> 0 | g # _ \<Rightarrow> g)"

definition userBookingsKey ::
  "string \<Rightarrow> string option \<Rightarrow> string option \<Rightarrow> string option \<Rightarrow> string" where
  "userBookingsKey cId statusParam dateFrom dateTo =
     ''user-bookings-'' @ cId @ ''-'' @
     (case statusParam of None \<Rightarrow> ''all'' | Some s \<Rightarrow> if s = [] then ''all'' else s) @ ''-'' @
     (case dateFrom of None \<Rightarrow> [] | Some f \<Rightarrow> f) @ ''-'' @
     (case dateTo of None \<Rightarrow> [] | Some t \<Rightarrow> t)"

definition sendConfirmationEmail :: "env \<Rightarrow> string \<Rightarrow> booking \<Rightarrow> state \<Rightarrow> state" where
  "sendConfirmationEmail e userEmail b st =
     (let st1 = st\<lparr>emailAttempts := emailAttempts st @ [(userEmail, b)]\<rparr> in
      case sendBookingConfirmationEmail e userEmail b of
        None \<Rightarrow> st1
      | Some errorMessage \<Rightarrow>
          logError (''Email error details: '' @ userEmail @ '' '' @ errorMessage)
            (logError ''Failed to send confirmation email:'' st1))"

text \<open>
  The first part of \<open>createBooking\<close>, up to the capacity check: it only reads the store.
  \<open>Inl\<close> is a response sent by one of the early returns (or by the catch block),
  \<open>Inr\<close> the restaurant and the user with which the handler goes on.
\<close>

definition createBooking_check ::
  "env \<Rightarrow> string \<Rightarrow> create_body \<Rightarrow> state \<Rightarrow> (response \<times> state) + (restaurant \<times> user)" where
  "createBooking_check e cId body st =
     (case validateCreateBookingInput e body of
        Some validationError \<Rightarrow> Inl (SendValidationError validationError, st)
      | None \<Rightarrow>
        (case findRestaurantById e (restaurants st) (b_restaurantId body) of
           Inl err \<Rightarrow> Inl (handleBookingError err, logError ''Booking creation error:'' st)
         | Inr restaurant \<Rightarrow>
           (case findUserById e (users st) cId of
              Inl err \<Rightarrow> Inl (handleBookingError err, logError ''Booking creation error:'' st)
            | Inr u \<Rightarrow>
              (let dayOfWeek = getDayOfWeek e (b_date body);
                   hours = getOpeningHours restaurant dayOfWeek
               in if isRestaurantClosed hours
                  then Inl (SendValidationError (''Restaurant is closed on '' @ dayOfWeek), st)
                  else
                    (case hours of
                       None \<Rightarrow> Inl (handleBookingError (OtherError ''TypeError''),
                                     logError ''Booking creation error:'' st)
                     | Some oc \<Rightarrow>
                       if \<not> isTimeWithinHours e (b_time body) (open_time oc) (close_time oc)
                       then Inl (SendValidationError
                                  (''Restaurant is closed at '' @ b_time body @ ''. Hours: '' @
                                   open_time oc @ '' - '' @ close_time oc), st)
                       else
                         (let existingBookingsCount =
                                aggregateTotalGuests (bookings st) (b_restaurantId body)
                                  (b_date body) (b_time body);
                              bookedGuests = bookedGuestsOf existingBookingsCount;
                              remaining = capacity restaurant - bookedGuests
                          in if b_guests body > remaining
                             then (if remaining \<le> 0
                                   then Inl (SendConflictError
                                          (''No tables available at '' @ b_time body @
                                           '' on '' @ b_date body), st)
                                   else Inl (SendConflictError
                                          (''Only '' @ showInt remaining @
                                           '' seats available at '' @ b_time body @
                                           '' on '' @ b_date body), st))
                             else Inr (restaurant, u)))))))"

text \<open>\<open>new Booking({ ..., status: 'confirmed' })\<close>\<close>

definition newBooking :: "env \<Rightarrow> string \<Rightarrow> create_body \<Rightarrow> state \<Rightarrow> booking" where
  "newBooking e cId body st =
     \<lparr>bookingId = newObjectId e (bookings st),
      customerId = cId,
      restaurantId = b_restaurantId body,
      date = b_date body,
      time = b_time body,
      guests = b_guests body,
      specialRequests =
        (case b_specialRequests body of
           None \<Rightarrow> None
         | Some s \<Rightarrow> if trim e s = [] then None else Some (trim e s)),
      status = Confirmed\<rparr>"

text \<open>
  The second part of \<open>createBooking\<close>: the session and its transaction around
  \<open>booking.save\<close>, the confirmation e-mail, the 201 response and the two cache deletions.
  A failed save aborts the transaction and rethrows to the outer catch block.
\<close>

definition createBooking_transaction ::
  "env \<Rightarrow> string \<Rightarrow> create_body \<Rightarrow> restaurant \<Rightarrow> user \<Rightarrow> state \<Rightarrow> response \<times> state" where
  "createBooking_transaction e cId body restaurant u st =
     (let b = newBooking e cId body st in
      case saveBooking e b of
        Some transactionError \<Rightarrow>
          (handleBookingError transactionError,
           logError ''Booking creation error:'' (logError ''Error during booking creation:'' st))
      | None \<Rightarrow>
          (let st1 = st\<lparr>bookings := bookings st @ [b]\<rparr>;
               st2 = sendConfirmationEmail e (email u) b st1;
               st3 = st2\<lparr>bookingCache :=
                       (bookingCache st2)(''user-bookings-'' @ cId @ ''-all--'' := None)\<rparr>;
               st4 = st3\<lparr>bookingCache :=
                       (bookingCache st3)(availabilityKey (b_restaurantId body) (b_date body)
                          := None)\<rparr>
           in (Json 201 (BookingBody ''Booking created successfully'' b
                 (Some (name restaurant))), st4)))"

definition createBooking :: "env \<Rightarrow> string \<Rightarrow> create_body \<Rightarrow> state \<Rightarrow> response \<times> state" where
  "createBooking e cId body st =
     (case createBooking_check e cId body st of
        Inl answered \<Rightarrow> answered
      | Inr (restaurant, u) \<Rightarrow> createBooking_transaction e cId body restaurant u st)"

section \<open>Booking lookup and cancellation\<close>

text \<open>
  Modelled from the spec: \<open>BookingDatabase.findUserBookingById\<close> is not part of the
  sources. The spec allows the operation only to the owning customer, and a missing
  entity is a not-found error: the helper returns the booking with that id whose customer
  is the requesting user, and throws \<open>NotFoundError\<close> otherwise. Both callers read
  \<open>.name\<close> (and \<open>getBookingById\<close> also \<open>._id\<close>) of the returned booking's
  \<open>restaurantId\<close>, so the helper returns it populated: the second component is that
  populated value, \<open>null\<close> (\<open>None\<close>) when no restaurant has the id.
\<close>

definition populateRestaurant :: "restaurant list \<Rightarrow> string \<Rightarrow> populated_restaurant option" where
  "populateRestaurant rs r =
     map_option (\<lambda>x. \<lparr>p_id = rid x, p_name = name x\<rparr>) (find (\<lambda>x. rid x = r) rs)"

definition findUserBookingById ::
  "booking list \<Rightarrow> restaurant list \<Rightarrow> string \<Rightarrow> string \<Rightarrow>
     thrown + (booking \<times> populated_restaurant option)" where
  "findUserBookingById bs rs i cId =
     (case find (\<lambda>b. bookingId b = i \<and> customerId b = cId) bs of
        None \<Rightarrow> Inl (NotFoundError ''Booking not found'')
      | Some b \<Rightarrow> Inr (b, populateRestaurant rs (restaurantId b)))"

text \<open>
  \<open>getBookingById\<close> answers \<open>booking.restaurantId._id\<close> and \<open>booking.restaurantId.name\<close>;
  reading them from \<open>null\<close> is a \<open>TypeError\<close>, which the catch block answers with 500.
\<close>

definition getBookingById :: "string \<Rightarrow> string \<Rightarrow> state \<Rightarrow> response \<times> state" where
  "getBookingById cId i st =
     (case findUserBookingById (bookings st) (restaurants st) i cId of
        Inl err \<Rightarrow> (handleBookingError err, logError ''Booking fetch error:'' st)
      | Inr (b, populated) \<Rightarrow>
          (case populated of
             None \<Rightarrow> (handleBookingError (OtherError ''TypeError''),
                       logError ''Booking fetch error:'' st)
           | Some r \<Rightarrow> (Json 200 (BookingBody [] b (Some (p_name r))), st)))"

text \<open>\<open>booking.save()\<close> of a loaded document: the document with that id is replaced.\<close>

definition saveDocument :: "booking \<Rightarrow> booking list \<Rightarrow> booking list" where
  "saveDocument b bs = map (\<lambda>x. if bookingId x = bookingId b then b else x) bs"

text \<open>
  \<open>bookingDateTime < now\<close>, where an unparsable date is an invalid \<open>Date\<close> whose comparison
  is false.
\<close>

definition isPast :: "env \<Rightarrow> booking \<Rightarrow> bool" where
  "isPast e b =
     (case parseDateTime e (date b @ ''T'' @ time b @ '':00'') of
        None \<Rightarrow> False
      | Some bookingDateTime \<Rightarrow> bookingDateTime < now e)"

text \<open>
  \<open>${booking.restaurantId}\<close> inside the template string of the deleted availability key:
  the populated document's string form, or \<open>null\<close>.
\<close>

definition renderRestaurantId :: "env \<Rightarrow> populated_restaurant option \<Rightarrow> string" where
  "renderRestaurantId e populated =
     (case populated of None \<Rightarrow> ''null'' | Some r \<Rightarrow> documentToString e r)"

text \<open>
  \<open>cancelBooking\<close>. The one value \<open>booking.restaurantId\<close> is rendered into the
  availability key that is deleted and read for \<open>restaurantName\<close> in the answer; when it
  is \<open>null\<close> the answer's \<open>.name\<close> throws after the save and the cache deletions.
\<close>

definition cancelBooking :: "env \<Rightarrow> string \<Rightarrow> string \<Rightarrow> state \<Rightarrow> response \<times> state" where
  "cancelBooking e cId i st =
     (case findUserBookingById (bookings st) (restaurants st) i cId of
        Inl err \<Rightarrow> (handleBookingError err, logError ''Cancel booking error:'' st)
      | Inr (b, populated) \<Rightarrow>
          if status b = Cancelled
          then (SendValidationError ''Booking is already cancelled'', st)
          else if isPast e b
          then (SendValidationError ''Cannot cancel past bookings'', st)
          else
            (let b' = b\<lparr>status := Cancelled\<rparr> in
             case saveBooking e b' of
               Some err \<Rightarrow> (handleBookingError err, logError ''Cancel booking error:'' st)
             | None \<Rightarrow>
                 (let st1 = st\<lparr>bookings := saveDocument b' (bookings st)\<rparr>;
                      st2 = st1\<lparr>bookingCache :=
                              (bookingCache st1)(''user-bookings-'' @ cId @ ''-all--'' := None)\<rparr>;
                      st3 = st2\<lparr>bookingCache :=
                              (bookingCache st2)
                                (availabilityKey (renderRestaurantId e populated) (date b)
                                   := None)\<rparr>
                  in case populated of
                       None \<Rightarrow> (handleBookingError (OtherError ''TypeError''),
                                 logError ''Cancel booking error:'' st3)
                     | Some r \<Rightarrow>
                         (Json 200 (BookingBody ''Booking cancelled successfully'' b'
                            (Some (p_name r))), st3))))"

section \<open>Restaurants: soft delete and lookup by id\<close>

text \<open>
  \<open>Restaurant.findById\<close>: a cast error for an id that is no ObjectId, \<open>null\<close> for an id
  without a document.
\<close>

definition findById :: "env \<Rightarrow> restaurant list \<Rightarrow> string \<Rightarrow> thrown + restaurant option" where
  "findById e rs i =
     (if \<not> validObjectId e i then Inl CastError else Inr (find (\<lambda>r. rid r = i) rs))"

text \<open>\<open>restaurant.save()\<close> of a loaded document: the document with that id is replaced.\<close>

definition saveRestaurantDocument :: "restaurant \<Rightarrow> restaurant list \<Rightarrow> restaurant list" where
  "saveRestaurantDocument r rs = map (\<lambda>x. if rid x = rid r then r else x) rs"

definition deleteRestaurant :: "env \<Rightarrow> string \<Rightarrow> string \<Rightarrow> state \<Rightarrow> response \<times> state" where
  "deleteRestaurant e owner i st =
     (case findById e (restaurants st) i of
        Inl err \<Rightarrow> (Json 500 (ErrorBody ''Failed to delete restaurant''),
                    logError ''Restaurant deletion error:'' st)
      | Inr None \<Rightarrow> (Json 404 (ErrorBody ''Restaurant not found''), st)
      | Inr (Some restaurant) \<Rightarrow>
          if ownerId restaurant \<noteq> owner
          then (Json 403 (ErrorBody ''You don't have permission to delete this restaurant''), st)
          else
            (let restaurant' = restaurant\<lparr>isActive := False\<rparr> in
             case saveRestaurant e restaurant' of
               Some err \<Rightarrow> (Json 500 (ErrorBody ''Failed to delete restaurant''),
                           logError ''Restaurant deletion error:'' st)
             | None \<Rightarrow>
                 (Json 200 (MessageBody ''Restaurant deleted successfully''),
                  st\<lparr>restaurants := saveRestaurantDocument restaurant' (restaurants st)\<rparr>)))"

text \<open>\<open>{ ...cached, cache: true }\<close>\<close>

definition fromCache :: "payload \<Rightarrow> payload" where
  "fromCache cached =
     (case cached of
        RestaurantBody r c \<Rightarrow> RestaurantBody r True
      | ListBody rs totalCount c \<Rightarrow> ListBody rs totalCount True
      | other \<Rightarrow> other)"

definition getRestaurantById :: "env \<Rightarrow> string \<Rightarrow> state \<Rightarrow> response \<times> state" where
  "getRestaurantById e i st =
     (let cacheKey = RestaurantKey i in
      case restaurantCache st cacheKey of
        Some cached \<Rightarrow> (Json 200 (fromCache cached), st)
      | None \<Rightarrow>
        (case findById e (restaurants st) i of
           Inl CastError \<Rightarrow> (Json 400 (ErrorBody ''Invalid restaurant ID''),
                             logError ''Restaurant fetch error:'' st)
         | Inl err \<Rightarrow> (Json 500 (ErrorBody ''Failed to fetch restaurant''),
                       logError ''Restaurant fetch error:'' st)
         | Inr None \<Rightarrow> (Json 404 (ErrorBody ''Restaurant not found''), st)
         | Inr (Some restaurant) \<Rightarrow>
             if \<not> isActive restaurant
             then (Json 404 (ErrorBody ''Restaurant is not available''), st)
             else (Json 200 (RestaurantBody restaurant False),
                   st\<lparr>restaurantCache :=
                        (restaurantCache st)(cacheKey \<mapsto> RestaurantBody restaurant False)\<rparr>)))"

text \<open>
  Modelled from the spec: the review controller is not part of the sources. The spec says
  reviews remain retrievable by id; the lookup reads the review collection only.
\<close>

definition findReviewById :: "review list \<Rightarrow> string \<Rightarrow> review option" where
  "findReviewById rvs i = find (\<lambda>r. reviewId r = i) rvs"

section \<open>Restaurants: public listing and nearby search\<close>

text \<open>A query parameter is used when it is a non-empty string.\<close>

definition present :: "string option \<Rightarrow> bool" where
  "present v = (case v of None \<Rightarrow> False | Some s \<Rightarrow> s \<noteq> [])"

text \<open>A destructuring default replaces a missing parameter only.\<close>

definition orDefault :: "string option \<Rightarrow> string \<Rightarrow> string" where
  "orDefault v dflt = (case v of None \<Rightarrow> dflt | Some s \<Rightarrow> s)"

text \<open>\<open>(parseInt(page) - 1) * parseInt(limit)\<close>, \<open>NaN\<close> when either is.\<close>

definition skipOf :: "int option \<Rightarrow> int option \<Rightarrow> int option" where
  "skipOf page limit =
     (case page of None \<Rightarrow> None
      | Some p \<Rightarrow> (case limit of None \<Rightarrow> None | Some l \<Rightarrow> Some ((p - 1) * l)))"

text \<open>
  The store's paging. In an aggregation \<open>$skip\<close> takes a non-negative and \<open>$limit\<close> a
  positive number and anything else is an error; a cursor rejects a negative or \<open>NaN\<close>
  skip and a \<open>NaN\<close> limit, reads limit 0 as no limit and a negative limit as its absolute
  value.
\<close>

definition aggregatePage :: "int option \<Rightarrow> int option \<Rightarrow> 'a list \<Rightarrow> thrown + 'a list" where
  "aggregatePage skip limit xs =
     (case skip of None \<Rightarrow> Inl (OtherError ''$skip'')
      | Some s \<Rightarrow>
        if s < 0 then Inl (OtherError ''$skip'')
        else (case limit of None \<Rightarrow> Inl (OtherError ''$limit'')
              | Some l \<Rightarrow>
                if l \<le> 0 then Inl (OtherError ''$limit'')
                else Inr (take (nat l) (drop (nat s) xs))))"

definition findPage :: "int option \<Rightarrow> int option \<Rightarrow> 'a list \<Rightarrow> thrown + 'a list" where
  "findPage skip limit xs =
     (case skip of None \<Rightarrow> Inl (OtherError ''skip'')
      | Some s \<Rightarrow>
        if s < 0 then Inl (OtherError ''skip'')
        else (case limit of None \<Rightarrow> Inl (OtherError ''limit'')
              | Some l \<Rightarrow>
                Inr (if l = 0 then drop (nat s) xs else take (nat \<bar>l\<bar>) (drop (nat s) xs))))"

text \<open>
  The \<open>$geoNear\<close> stage: the documents that have a geometry, satisfy the stage's query
  and lie within \<open>maxDistance\<close> metres of the point, each with its distance, nearest
  first. It fails without a usable geospatial index, for a point outside the coordinate
  ranges and for a negative distance.
\<close>

definition withDistance :: "env \<Rightarrow> real \<times> real \<Rightarrow> restaurant \<Rightarrow> (restaurant \<times> real) option" where
  "withDistance e near r =
     (case geometry r of None \<Rightarrow> None | Some g \<Rightarrow> Some (r, geoDistance e near g))"

definition validPoint :: "real \<times> real \<Rightarrow> bool" where
  "validPoint pt = (- 180 \<le> fst pt \<and> fst pt \<le> 180 \<and> - 90 \<le> snd pt \<and> snd pt \<le> 90)"

definition geoNear ::
  "env \<Rightarrow> real \<times> real \<Rightarrow> real \<Rightarrow> (restaurant \<Rightarrow> bool) \<Rightarrow> restaurant list \<Rightarrow>
     thrown + (restaurant \<times> real) list" where
  "geoNear e near maxDistance query rs =
     (if \<not> geoIndexAvailable e \<or> \<not> validPoint near \<or> maxDistance < 0
      then Inl (OtherError ''$geoNear'')
      else Inr (sort_key snd
                 (filter (\<lambda>rd. query (fst rd) \<and> snd rd \<le> maxDistance)
                    (List.map_filter (withDistance e near) rs))))"

text \<open>The equality conditions on cuisine and price range that both listings add.\<close>

definition cuisineMatches :: "restaurant_query \<Rightarrow> restaurant \<Rightarrow> bool" where
  "cuisineMatches q r = (if present (q_cuisine q) then Some (cuisine r) = q_cuisine q else True)"

definition priceMatches :: "env \<Rightarrow> restaurant_query \<Rightarrow> restaurant \<Rightarrow> bool" where
  "priceMatches e q r =
     (if present (q_priceRange q)
      then parseInt e (orDefault (q_priceRange q) []) = Some (priceRange r)
      else True)"

text \<open>
  A \<open>find\<close> or \<open>countDocuments\<close> casts its filter against the schema: a \<open>priceRange\<close>
  that \<open>parseInt\<close> turned into \<open>NaN\<close> is a \<open>CastError\<close>. An aggregation does not cast,
  and there the \<open>NaN\<close> matches no restaurant.
\<close>

definition priceCastFails :: "env \<Rightarrow> restaurant_query \<Rightarrow> bool" where
  "priceCastFails e q =
     (present (q_priceRange q) \<and> parseInt e (orDefault (q_priceRange q) []) = None)"

datatype listing = Rejected string | Failed thrown | Listed "restaurant list" int

text \<open>The body of the \<open>try\<close> block of \<open>getRestaurants\<close>.\<close>

definition queryRestaurants :: "env \<Rightarrow> restaurant_query \<Rightarrow> restaurant list \<Rightarrow> listing" where
  "queryRestaurants e q rs =
     (let page = parseInt e (orDefault (q_page q) ''1'');
          limit = parseInt e (orDefault (q_limit q) ''10'');
          radius = orDefault (q_radius q) ''10'';
          skip = skipOf page limit
      in if present (q_latitude q) \<and> present (q_longitude q)
         then
           (case parseFloat e (orDefault (q_latitude q) []) of
              None \<Rightarrow> Rejected ''Invalid coordinates or radius''
            | Some lat \<Rightarrow>
              (case parseFloat e (orDefault (q_longitude q) []) of
                 None \<Rightarrow> Rejected ''Invalid coordinates or radius''
               | Some lng \<Rightarrow>
                 (case parseFloat e radius of
                    None \<Rightarrow> Rejected ''Invalid coordinates or radius''
                  | Some radiusInKm \<Rightarrow>
                    (case geoNear e (lng, lat) (radiusInKm * 1000) (\<lambda>r. True) rs of
                       Inl err \<Rightarrow> Failed err
                     | Inr near \<Rightarrow>
                       (let matched = filter (\<lambda>rd. isActive (fst rd) \<and>
                                            cuisineMatches q (fst rd) \<and>
                                            priceMatches e q (fst rd)) near;
                            sorted = sort_key snd matched
                        in case aggregatePage skip limit sorted of
                             Inl err \<Rightarrow> Failed err
                           | Inr rows \<Rightarrow>
                               Listed (map fst rows)
                                 (int (length (drop (nat (orZero skip)) sorted))))))))
         else if priceCastFails e q then Failed CastError
         else
           (case (if present (q_location q)
                  then regexMatch e (orDefault (q_location q) [])
                  else Some (\<lambda>l. True)) of
              None \<Rightarrow> Failed (OtherError ''$regex'')
            | Some locationMatches \<Rightarrow>
              (let matched = filter (\<lambda>r. isActive r \<and> locationMatches (location r) \<and>
                                         cuisineMatches q r \<and> priceMatches e q r) rs
               in case findPage skip limit (sort_key name matched) of
                    Inl err \<Rightarrow> Failed err
                  | Inr rows \<Rightarrow> Listed rows (int (length matched)))))"

definition noFilters :: "restaurant_query \<Rightarrow> bool" where
  "noFilters q =
     (\<not> present (q_location q) \<and> \<not> present (q_cuisine q) \<and> \<not> present (q_priceRange q) \<and>
      \<not> present (q_latitude q) \<and> \<not> present (q_longitude q))"

definition getRestaurants :: "env \<Rightarrow> restaurant_query \<Rightarrow> state \<Rightarrow> response \<times> state" where
  "getRestaurants e q st =
     (let cacheKey = BrowseKey q in
      case (if noFilters q then restaurantCache st cacheKey else None) of
        Some cached \<Rightarrow> (Json 200 (fromCache cached), st)
      | None \<Rightarrow>
        (case queryRestaurants e q (restaurants st) of
           Rejected msg \<Rightarrow> (Json 400 (ErrorBody msg), st)
         | Failed err \<Rightarrow> (Json 500 (ErrorBody ''Failed to fetch restaurants''),
                          logError ''Restaurant search error:'' st)
         | Listed rows totalCount \<Rightarrow>
             (Json 200 (ListBody rows totalCount False),
              if noFilters q
              then st\<lparr>restaurantCache :=
                        (restaurantCache st)(cacheKey \<mapsto> ListBody rows totalCount False)\<rparr>
              else st)))"

text \<open>
  The two aggregations of \<open>getNearbyRestaurants\<close> inside its inner \<open>try\<close>: the page of
  results and the total count.
\<close>

definition nearbyFilter :: "env \<Rightarrow> restaurant_query \<Rightarrow> restaurant \<Rightarrow> bool" where
  "nearbyFilter e q r = (isActive r \<and> cuisineMatches q r \<and> priceMatches e q r)"

definition nearbyAggregate ::
  "env \<Rightarrow> restaurant_query \<Rightarrow> real \<times> real \<Rightarrow> real \<Rightarrow> int option \<Rightarrow> int option \<Rightarrow>
     restaurant list \<Rightarrow> thrown + ((restaurant \<times> real) list \<times> int)" where
  "nearbyAggregate e q near radiusKm skip limit rs =
     (case geoNear e near (radiusKm * 1000) (nearbyFilter e q) rs of
        Inl err \<Rightarrow> Inl err
      | Inr found \<Rightarrow>
        (case aggregatePage skip limit (sort_key snd found) of
           Inl err \<Rightarrow> Inl err
         | Inr rows \<Rightarrow> Inr (rows, int (length found))))"

definition nearbyFallback ::
  "env \<Rightarrow> restaurant_query \<Rightarrow> int option \<Rightarrow> int option \<Rightarrow> restaurant list \<Rightarrow>
     thrown + ((restaurant \<times> real) list \<times> int)" where
  "nearbyFallback e q skip limit rs =
     (if priceCastFails e q then Inl CastError
      else
        (case findPage skip limit (filter (nearbyFilter e q) rs) of
           Inl err \<Rightarrow> Inl err
         | Inr rows \<Rightarrow>
             Inr (map (\<lambda>r. (r, 1000)) rows, int (length (filter (nearbyFilter e q) rs)))))"

definition getNearbyRestaurants :: "env \<Rightarrow> restaurant_query \<Rightarrow> state \<Rightarrow> response \<times> state" where
  "getNearbyRestaurants e q st =
     (if \<not> present (q_latitude q) \<or> \<not> present (q_longitude q)
      then (Json 400 (ErrorBody
              ''Latitude and longitude are required for location-based search''), st)
      else
        (case (parseFloat e (orDefault (q_latitude q) []),
               parseFloat e (orDefault (q_longitude q) []),
               parseFloat e (orDefault (q_radius q) ''5'')) of
           (Some lat, Some lng, Some radiusKm) \<Rightarrow>
             if lat < - 90 \<or> lat > 90
             then (Json 400 (ErrorBody ''Latitude must be between -90 and 90''), st)
             else if lng < - 180 \<or> lng > 180
             then (Json 400 (ErrorBody ''Longitude must be between -180 and 180''), st)
             else if radiusKm \<le> 0
             then (Json 400 (ErrorBody ''Radius must be greater than 0''), st)
             else
               (let limit = parseInt e (orDefault (q_limit q) ''10'');
                    skip = skipOf (parseInt e (orDefault (q_page q) ''1'')) limit
                in case nearbyAggregate e q (lng, lat) radiusKm skip limit (restaurants st) of
                     Inr (rows, totalCount) \<Rightarrow> (Json 200 (NearbyBody rows totalCount), st)
                   | Inl geoError \<Rightarrow>
                     (case nearbyFallback e q skip limit (restaurants st) of
                        Inr (rows, totalCount) \<Rightarrow> (Json 200 (NearbyBody rows totalCount), st)
                      | Inl err \<Rightarrow>
                          (Json 500 (ErrorBody ''Failed to fetch nearby restaurants''),
                           logError ''Nearby restaurants search error:'' st)))
         | _ \<Rightarrow> (Json 400 (ErrorBody ''Invalid coordinate or radius values''), st)))"


text \<open>
  The spec's wording of the tally: the sum of the guest counts of all bookings with
  status confirmed or pending at that exact restaurant, date and time.
\<close>

definition committedGuests :: "booking list \<Rightarrow> string \<Rightarrow> string \<Rightarrow> string \<Rightarrow> int" where
  "committedGuests bs r d t =
     sum_list (map guests
       (filter (\<lambda>b. restaurantId b = r \<and> date b = d \<and> time b = t \<and>
                     (status b = Confirmed \<or> status b = Pending)) bs))"

section \<open>Example inputs\<close>

text \<open>
  A concrete environment and store on which the theorems below are evaluated. The
  environment's functions are simple stand-ins for the helpers, the parsers and the
  store's distance; the store holds the spec's example: a restaurant of capacity 20 with
  two confirmed bookings of 10 and 8 guests at 19:00.
\<close>

definition lookupRestaurant :: "restaurant list \<Rightarrow> string \<Rightarrow> thrown + restaurant" where
  "lookupRestaurant rs i =
     (case find (\<lambda>r. rid r = i) rs of
        None \<Rightarrow> Inl (NotFoundError ''Restaurant not found'')
      | Some r \<Rightarrow> Inr r)"

definition lookupUser :: "user list \<Rightarrow> string \<Rightarrow> thrown + user" where
  "lookupUser us i =
     (case find (\<lambda>u. userId u = i) us of
        None \<Rightarrow> Inl (NotFoundError ''User not found'')
      | Some u \<Rightarrow> Inr u)"

definition example_env :: env where
  "example_env =
     \<lparr>getDayOfWeek = (\<lambda>d. if d = ''2025-07-04'' then ''friday''
                           else if d = ''2025-07-07'' then ''monday'' else ''sunday''),
      generateTimeSlots = (\<lambda>opn cls. [opn, ''19:00'']),
      isTimeWithinHours = (\<lambda>t opn cls. opn \<le> t \<and> t < cls),
      validateAvailabilityInput = (\<lambda>r d. None),
      validateCreateBookingInput = (\<lambda>body. None),
      findRestaurantById = lookupRestaurant,
      findUserById = lookupUser,
      newObjectId = (\<lambda>bs. ''b'' @ digitsOf (length bs)),
      saveBooking = (\<lambda>b. None),
      sendBookingConfirmationEmail = (\<lambda>recipient b. Some ''SMTP unreachable''),
      parseDateTime = (\<lambda>s. if s = ''2025-07-04T19:00:00'' then Some 1000 else None),
      now = 500,
      trim = (\<lambda>s. s),
      validObjectId = (\<lambda>i. i \<noteq> ''bad''),
      saveRestaurant = (\<lambda>r. None),
      parseFloat = (\<lambda>s. if s = ''0'' then Some 0 else if s = ''5'' then Some 5
                         else if s = ''10'' then Some 10 else None),
      parseInt = (\<lambda>s. if s = ''1'' then Some 1 else if s = ''2'' then Some 2
                       else if s = ''10'' then Some 10 else None),
      regexMatch = (\<lambda>pattern. Some (\<lambda>l. l = pattern)),
      geoIndexAvailable = True,
      geoDistance = (\<lambda>a b. (\<bar>fst a - fst b\<bar> + \<bar>snd a - snd b\<bar>) * 1000),
      documentToString = (\<lambda>r. ''{ _id: '' @ p_id r @ '', name: '' @ p_name r @ '' }'')\<rparr>"

definition example_restaurant :: restaurant where
  "example_restaurant =
     \<lparr>rid = ''r1'', name = ''Bistro'', ownerId = ''o1'', cuisine = ''French'',
      location = ''Halifax'', priceRange = 2, capacity = 20,
      openingHours = [(''friday'', \<lparr>open_time = ''17:00'', close_time = ''22:00''\<rparr>),
                      (''monday'', \<lparr>open_time = ''09:00'', close_time = ''09:00''\<rparr>)],
      geometry = Some (2, 0), isActive = True\<rparr>"

definition restaurant_at :: "string \<Rightarrow> string \<Rightarrow> real \<Rightarrow> bool \<Rightarrow> restaurant" where
  "restaurant_at i nm x act =
     example_restaurant\<lparr>rid := i, name := nm, geometry := Some (x, 0), isActive := act\<rparr>"

definition example_booking :: "string \<Rightarrow> string \<Rightarrow> int \<Rightarrow> booking" where
  "example_booking i c g =
     \<lparr>bookingId = i, customerId = c, restaurantId = ''r1'', date = ''2025-07-04'',
      time = ''19:00'', guests = g, specialRequests = None, status = Confirmed\<rparr>"

definition example_state :: state where
  "example_state =
     \<lparr>restaurants = [example_restaurant, restaurant_at ''r2'' ''Anchor'' 1 True,
                     restaurant_at ''r3'' ''Zen'' 9 True, restaurant_at ''r4'' ''Yard'' 0 False],
      bookings = [example_booking ''b0'' ''c1'' 10, example_booking ''b1'' ''c2'' 8],
      reviews = [\<lparr>reviewId = ''v1'', reviewCustomer = ''c1'', reviewRestaurant = ''r1'',
                  rating = 5\<rparr>],
      users = [\<lparr>userId = ''c1'', email = ''c1@example.org''\<rparr>,
               \<lparr>userId = ''c2'', email = ''c2@example.org''\<rparr>],
      restaurantCache = Map.empty,
      bookingCache = Map.empty,
      logs = [],
      emailAttempts = []\<rparr>"

definition example_request :: "int \<Rightarrow> create_body" where
  "example_request g =
     \<lparr>b_restaurantId = ''r1'', b_date = ''2025-07-04'', b_time = ''19:00'', b_guests = g,
      b_specialRequests = None\<rparr>"

definition example_query :: restaurant_query where
  "example_query =
     \<lparr>q_location = None, q_cuisine = None, q_priceRange = None, q_page = None,
      q_limit = None, q_latitude = None, q_longitude = None, q_radius = None\<rparr>"

definition nearby_query :: restaurant_query where
  "nearby_query = example_query\<lparr>q_latitude := Some ''0'', q_longitude := Some ''0''\<rparr>"

definition example_availability_body_slots :: "slot list" where
  "example_availability_body_slots = [Slot ''17:00'' True 20 20, Slot ''19:00'' True 2 20]"

definition example_availability_body :: payload where
  "example_availability_body =
     AvailabilityBody ''r1'' ''Bistro'' ''2025-07-04'' ''friday''
       \<lparr>open_time = ''17:00'', close_time = ''22:00''\<rparr> example_availability_body_slots 2"

text \<open>The example store after its availability for 2025-07-04 has been cached.\<close>

definition example_cached_state :: state where
  "example_cached_state =
     example_state\<lparr>bookingCache := (bookingCache example_state)
       (availabilityKey ''r1'' ''2025-07-04'' \<mapsto> example_availability_body)\<rparr>"

text \<open>That store after customer \<open>c1\<close> has cancelled booking \<open>b0\<close>.\<close>

definition example_cancelled_state :: state where
  "example_cancelled_state =
     example_cached_state\<lparr>bookings :=
         [(example_booking ''b0'' ''c1'' 10)\<lparr>status := Cancelled\<rparr>,
          example_booking ''b1'' ''c2'' 8],
       bookingCache := (bookingCache example_cached_state)
         (''user-bookings-c1-all--'' := None,
          availabilityKey ''{ _id: r1, name: Bistro }'' ''2025-07-04'' := None)\<rparr>"

section \<open>Two requests interleaved\<close>

text \<open>
  \<open>createBooking\<close> awaits the aggregate before it opens its session, so a second request
  can run its own capacity check between the first request's check and its save. This is
  that schedule: both checks read the same store, then both transactions run.
\<close>

definition interleaved ::
  "env \<Rightarrow> string \<Rightarrow> create_body \<Rightarrow> string \<Rightarrow> create_body \<Rightarrow> state \<Rightarrow>
     (response \<times> response \<times> state) option" where
  "interleaved e c1 body1 c2 body2 st =
     (case createBooking_check e c1 body1 st of
        Inl a \<Rightarrow> None
      | Inr (r1, u1) \<Rightarrow>
        (case createBooking_check e c2 body2 st of
           Inl a \<Rightarrow> None
         | Inr (r2, u2) \<Rightarrow>
           (case createBooking_transaction e c1 body1 r1 u1 st of
              (resp1, st1) \<Rightarrow>
                (case createBooking_transaction e c2 body2 r2 u2 st1 of
                   (resp2, st2) \<Rightarrow> Some (resp1, resp2, st2)))))"

definition isCreated :: "response \<Rightarrow> bool" where
  "isCreated resp = (case resp of Json code p \<Rightarrow> code = 201 | _ \<Rightarrow> False)"

section \<open>The tally of the availability computation\<close>

lemmas example_defs = example_env_def example_state_def example_restaurant_def
  restaurant_at_def example_booking_def example_request_def example_query_def
  lookupRestaurant_def lookupUser_def

lemma orZero_foldl_tally:
  "orZero (foldl tally m bs t) =
     orZero (m t) + sum_list (map guests (filter (\<lambda>b. time b = t) bs))"
  by (induction bs arbitrary: m) (simp_all add: tally_def orZero_def)

lemma countBookings_committedGuests:
  "orZero (countBookings (findExistingBookings bs r d) t) = committedGuests bs r d t"
proof -
  have "filter (\<lambda>b. time b = t) (findExistingBookings bs r d) =
        filter (\<lambda>b. restaurantId b = r \<and> date b = d \<and> time b = t \<and>
                     (status b = Confirmed \<or> status b = Pending)) bs"
    unfolding findExistingBookings_def activeStatus_def
    by (induction bs) auto
  then have "orZero (foldl tally Map.empty (findExistingBookings bs r d) t) =
        orZero (Map.empty t) + committedGuests bs r d t"
    unfolding committedGuests_def by (simp only: orZero_foldl_tally)
  then show ?thesis
    by (simp add: countBookings_def orZero_def)
qed

section \<open>Booking creation and availability: the claims\<close>

lemma bookedGuestsOf_aggregate:
  "bookedGuestsOf (aggregateTotalGuests bs r d t) = committedGuests bs r d t"
  by (simp add: bookedGuestsOf_def aggregateTotalGuests_def committedGuests_def
      activeStatus_def Let_def)

lemma example_committed:
  "committedGuests (bookings example_state) ''r1'' ''2025-07-04'' ''19:00'' = 18"
  by (simp add: committedGuests_def example_defs)

lemma example_found:
  "findRestaurantById example_env (restaurants example_state) ''r1'' = Inr example_restaurant"
  by (simp add: example_defs)

lemma example_friday:
  "getOpeningHours example_restaurant (getDayOfWeek example_env ''2025-07-04'') =
     Some \<lparr>open_time = ''17:00'', close_time = ''22:00''\<rparr>"
  by (simp add: getOpeningHours_def example_defs)

text \<open>
  C1. On a cache miss, for a valid request, a restaurant that is found and a date on
  which it is open, the availability answer lists one slot per generated time; each
  slot's \<open>availableCapacity\<close> is the restaurant's capacity minus the sum of the guests of
  the confirmed or pending bookings at that restaurant, date and time, and its
  \<open>available\<close> flag is \<open>availableCapacity > 0\<close>.
\<close>

theorem getAvailability_capacity:
  assumes miss: "bookingCache st (availabilityKey rId d) = None"
    and valid: "validateAvailabilityInput e rId d = None"
    and found: "findRestaurantById e (restaurants st) rId = Inr r"
    and hours: "getOpeningHours r (getDayOfWeek e d) = Some oc"
    and opn: "\<not> isRestaurantClosed (Some oc)"
  shows "fst (getAvailability e rId d st) =
           Json 200 (AvailabilityBody rId (name r) d (getDayOfWeek e d) oc
             (map (\<lambda>t. Slot t (capacity r - committedGuests (bookings st) rId d t > 0)
                           (capacity r - committedGuests (bookings st) rId d t)
                           (capacity r))
                  (generateTimeSlots e (open_time oc) (close_time oc)))
             (length (generateTimeSlots e (open_time oc) (close_time oc))))"
  using assms
  by (simp add: getAvailability_def Let_def slotFor_def countBookings_committedGuests)

theorem getAvailability_capacity_witness:
  "bookingCache example_state (availabilityKey ''r1'' ''2025-07-04'') = None \<and>
   validateAvailabilityInput example_env ''r1'' ''2025-07-04'' = None \<and>
   \<not> isRestaurantClosed (Some \<lparr>open_time = ''17:00'', close_time = ''22:00''\<rparr>) \<and>
   fst (getAvailability example_env ''r1'' ''2025-07-04'' example_state) =
     Json 200 (AvailabilityBody ''r1'' ''Bistro'' ''2025-07-04'' ''friday''
       \<lparr>open_time = ''17:00'', close_time = ''22:00''\<rparr>
       [Slot ''17:00'' True 20 20, Slot ''19:00'' True 2 20] 2)"
proof -
  have miss: "bookingCache example_state (availabilityKey ''r1'' ''2025-07-04'') = None"
    by (simp add: example_defs)
  have valid: "validateAvailabilityInput example_env ''r1'' ''2025-07-04'' = None"
    by (simp add: example_defs)
  have opn: "\<not> isRestaurantClosed (Some \<lparr>open_time = ''17:00'', close_time = ''22:00''\<rparr>)"
    by (simp add: isRestaurantClosed_def)
  have early: "committedGuests (bookings example_state) ''r1'' ''2025-07-04'' ''17:00'' = 0"
    by (simp add: committedGuests_def example_defs)
  have slots: "generateTimeSlots example_env ''17:00'' ''22:00'' = [''17:00'', ''19:00'']"
    by (simp add: example_defs)
  have day: "getDayOfWeek example_env ''2025-07-04'' = ''friday''"
    by (simp add: example_defs)
  have cap: "capacity example_restaurant = 20" "name example_restaurant = ''Bistro''"
    by (simp_all add: example_defs)
  from getAvailability_capacity [OF miss valid example_found example_friday opn]
  show ?thesis
    using miss valid opn by (simp add: early example_committed slots day cap)
qed

text \<open>
  C4. On a cache miss, for a valid request and a restaurant that is found, if the
  resolved weekday has no open/close pair in the opening-hours table, or its open time
  equals its close time, the answer is the empty slot list with the message
  \<open>Restaurant is closed on <weekday>\<close>; the state is returned unchanged and the answer
  is the same whatever the booking collection holds.
\<close>

theorem getAvailability_closed:
  assumes miss: "bookingCache st (availabilityKey rId d) = None"
    and valid: "validateAvailabilityInput e rId d = None"
    and found: "findRestaurantById e (restaurants st) rId = Inr r"
    and closed: "getOpeningHours r (getDayOfWeek e d) = None \<or>
                 (\<exists>oc. getOpeningHours r (getDayOfWeek e d) = Some oc \<and>
                       open_time oc = close_time oc)"
  shows "getAvailability e rId d st =
           (Json 200 (ClosedBody rId d [] (''Restaurant is closed on '' @ getDayOfWeek e d)), st)
         \<and> getAvailability e rId d (st\<lparr>bookings := bs\<rparr>) =
           (Json 200 (ClosedBody rId d [] (''Restaurant is closed on '' @ getDayOfWeek e d)),
            st\<lparr>bookings := bs\<rparr>)"
proof -
  from closed have "isRestaurantClosed (getOpeningHours r (getDayOfWeek e d))"
    by (auto simp: isRestaurantClosed_def)
  with miss valid found show ?thesis
    by (simp add: getAvailability_def Let_def)
qed

theorem getAvailability_closed_witness:
  "getOpeningHours example_restaurant (getDayOfWeek example_env ''2025-07-06'') = None \<and>
   getOpeningHours example_restaurant (getDayOfWeek example_env ''2025-07-07'') =
     Some \<lparr>open_time = ''09:00'', close_time = ''09:00''\<rparr> \<and>
   getAvailability example_env ''r1'' ''2025-07-06'' example_state =
     (Json 200 (ClosedBody ''r1'' ''2025-07-06'' [] ''Restaurant is closed on sunday''),
      example_state) \<and>
   getAvailability example_env ''r1'' ''2025-07-07'' example_state =
     (Json 200 (ClosedBody ''r1'' ''2025-07-07'' [] ''Restaurant is closed on monday''),
      example_state)"
proof -
  have sunday: "getOpeningHours example_restaurant (getDayOfWeek example_env ''2025-07-06'')
                  = None"
    by (simp add: getOpeningHours_def example_defs)
  have monday: "getOpeningHours example_restaurant (getDayOfWeek example_env ''2025-07-07'')
                  = Some \<lparr>open_time = ''09:00'', close_time = ''09:00''\<rparr>"
    by (simp add: getOpeningHours_def example_defs)
  have miss: "bookingCache example_state (availabilityKey ''r1'' d) = None" for d
    by (simp add: example_defs)
  have valid: "validateAvailabilityInput example_env ''r1'' d = None" for d
    by (simp add: example_defs)
  have days: "getDayOfWeek example_env ''2025-07-06'' = ''sunday''"
    "getDayOfWeek example_env ''2025-07-07'' = ''monday''"
    by (simp_all add: example_defs)
  have a: "getAvailability example_env ''r1'' ''2025-07-06'' example_state =
     (Json 200 (ClosedBody ''r1'' ''2025-07-06'' [] ''Restaurant is closed on sunday''),
      example_state)"
    using getAvailability_closed [OF miss valid example_found, of "''2025-07-06''"] sunday
    by (simp add: days)
  have b: "getAvailability example_env ''r1'' ''2025-07-07'' example_state =
     (Json 200 (ClosedBody ''r1'' ''2025-07-07'' [] ''Restaurant is closed on monday''),
      example_state)"
    using getAvailability_closed [OF miss valid example_found, of "''2025-07-07''"] monday
    by (simp add: days)
  from sunday monday a b show ?thesis by simp
qed

text \<open>
  C2. When a request passes the validation, the restaurant and user lookups and the
  opening-hours checks, and asks for more guests than the remaining capacity of the slot
  (capacity minus the guests of the confirmed or pending bookings at that restaurant,
  date and time), \<open>createBooking\<close> answers with a conflict and returns the state
  unchanged, so no booking is inserted. The message is \<open>No tables available at ...\<close> when
  the remaining capacity is zero or less, and \<open>Only <remaining> seats available at ...\<close>
  otherwise.
\<close>

theorem createBooking_conflict:
  assumes valid: "validateCreateBookingInput e body = None"
    and found: "findRestaurantById e (restaurants st) (b_restaurantId body) = Inr r"
    and usr: "findUserById e (users st) cId = Inr u"
    and hours: "getOpeningHours r (getDayOfWeek e (b_date body)) = Some oc"
    and opn: "\<not> isRestaurantClosed (Some oc)"
    and within: "isTimeWithinHours e (b_time body) (open_time oc) (close_time oc)"
    and remaining: "remaining = capacity r -
          committedGuests (bookings st) (b_restaurantId body) (b_date body) (b_time body)"
    and exceeds: "b_guests body > remaining"
  shows "createBooking e cId body st =
           (SendConflictError
              (if remaining \<le> 0
               then ''No tables available at '' @ b_time body @ '' on '' @ b_date body
               else ''Only '' @ showInt remaining @ '' seats available at '' @ b_time body @
                    '' on '' @ b_date body), st)"
  using assms
  by (simp add: createBooking_def createBooking_check_def Let_def bookedGuestsOf_aggregate)

theorem createBooking_conflict_witness:
  "capacity example_restaurant -
     committedGuests (bookings example_state) ''r1'' ''2025-07-04'' ''19:00'' = 2 \<and>
   createBooking example_env ''c1'' (example_request 3) example_state =
     (SendConflictError ''Only 2 seats available at 19:00 on 2025-07-04'', example_state) \<and>
   createBooking example_env ''c1'' (example_request 1)
       (example_state\<lparr>bookings := bookings example_state @ [example_booking ''b2'' ''c1'' 2]\<rparr>) =
     (SendConflictError ''No tables available at 19:00 on 2025-07-04'',
      example_state\<lparr>bookings := bookings example_state @ [example_booking ''b2'' ''c1'' 2]\<rparr>)"
proof -
  let ?full = "example_state\<lparr>bookings := bookings example_state @
                  [example_booking ''b2'' ''c1'' 2]\<rparr>"
  have valid: "validateCreateBookingInput example_env (example_request g) = None" for g
    by (simp add: example_defs)
  have found: "findRestaurantById example_env (restaurants example_state)
                 (b_restaurantId (example_request g)) = Inr example_restaurant" for g
    by (simp add: example_defs)
  have found': "findRestaurantById example_env (restaurants ?full)
                 (b_restaurantId (example_request g)) = Inr example_restaurant" for g
    by (simp add: example_defs)
  have usr: "findUserById example_env (users example_state) ''c1'' =
               Inr \<lparr>userId = ''c1'', email = ''c1@example.org''\<rparr>"
    by (simp add: example_defs)
  have usr': "findUserById example_env (users ?full) ''c1'' =
               Inr \<lparr>userId = ''c1'', email = ''c1@example.org''\<rparr>"
    by (simp add: example_defs)
  have hours: "getOpeningHours example_restaurant
                 (getDayOfWeek example_env (b_date (example_request g))) =
               Some \<lparr>open_time = ''17:00'', close_time = ''22:00''\<rparr>" for g
    by (simp add: getOpeningHours_def example_defs)
  have opn: "\<not> isRestaurantClosed (Some \<lparr>open_time = ''17:00'', close_time = ''22:00''\<rparr>)"
    by (simp add: isRestaurantClosed_def)
  have within: "isTimeWithinHours example_env (b_time (example_request g))
                  (open_time \<lparr>open_time = ''17:00'', close_time = ''22:00''\<rparr>)
                  (close_time \<lparr>open_time = ''17:00'', close_time = ''22:00''\<rparr>)" for g
    by (simp add: example_defs)
  have two: "(2::int) = capacity example_restaurant -
          committedGuests (bookings example_state) (b_restaurantId (example_request 3))
            (b_date (example_request 3)) (b_time (example_request 3))"
    by (simp add: committedGuests_def example_defs)
  have zero: "(0::int) = capacity example_restaurant -
          committedGuests (bookings ?full) (b_restaurantId (example_request 1))
            (b_date (example_request 1)) (b_time (example_request 1))"
    by (simp add: committedGuests_def example_defs)
  have three: "b_guests (example_request 3) > 2" and one: "b_guests (example_request 1) > 0"
    by (simp_all add: example_defs)
  have digits: "showInt 2 = ''2''"
    by (simp add: showInt_def)
  have fields: "b_time (example_request g) = ''19:00''"
    "b_date (example_request g) = ''2025-07-04''" for g
    by (simp_all add: example_defs)
  from createBooking_conflict [OF valid found usr hours opn within two three]
  have a: "createBooking example_env ''c1'' (example_request 3) example_state =
     (SendConflictError ''Only 2 seats available at 19:00 on 2025-07-04'', example_state)"
    by (simp add: digits fields)
  from createBooking_conflict [OF valid found' usr' hours opn within zero one]
  have b: "createBooking example_env ''c1'' (example_request 1) ?full =
     (SendConflictError ''No tables available at 19:00 on 2025-07-04'', ?full)"
    by (simp add: fields)
  from two a b show ?thesis by (simp add: fields example_request_def)
qed

lemma createBooking_check_reads:
  "createBooking_check e cId body st = Inl (resp, st') \<Longrightarrow> bookings st' = bookings st"
  by (auto simp: createBooking_check_def Let_def logError_def
           split: option.splits sum.splits if_splits)

lemma sendConfirmationEmail_bookings:
  "bookings (sendConfirmationEmail e m b st) = bookings st"
  by (simp add: sendConfirmationEmail_def Let_def logError_def split: option.splits)

lemma createBooking_transaction_bookings:
  "createBooking_transaction e cId body r u st = (resp, st') \<Longrightarrow>
     (bookings st' = bookings st \<and> (\<forall>p. resp \<noteq> Json 201 p)) \<or>
     (bookings st' = bookings st @ [newBooking e cId body st] \<and>
      resp = Json 201 (BookingBody ''Booking created successfully''
               (newBooking e cId body st) (Some (name r))))"
  by (auto simp: createBooking_transaction_def Let_def logError_def handleBookingError_def
        sendConfirmationEmail_bookings
      split: option.splits thrown.splits)

lemma createBooking_check_not_created:
  "createBooking_check e cId body st = Inl (resp, st') \<Longrightarrow> resp \<noteq> Json 201 p"
  by (auto simp: createBooking_check_def Let_def handleBookingError_def
           split: option.splits sum.splits if_splits thrown.splits)

lemma example_check:
  "createBooking_check example_env ''c1'' (example_request 2) example_state =
     Inr (example_restaurant, \<lparr>userId = ''c1'', email = ''c1@example.org''\<rparr>)"
  by (simp add: createBooking_check_def Let_def getOpeningHours_def isRestaurantClosed_def
      aggregateTotalGuests_def activeStatus_def bookedGuestsOf_def example_defs)

lemma example_newBooking:
  "newBooking example_env ''c1'' (example_request 2) example_state =
     example_booking ''b2'' ''c1'' 2"
  by (simp add: newBooking_def example_defs)

lemma example_created:
  "fst (createBooking example_env ''c1'' (example_request 2) example_state) =
     Json 201 (BookingBody ''Booking created successfully''
       (example_booking ''b2'' ''c1'' 2) (Some ''Bistro''))"
proof -
  have saved: "saveBooking example_env (example_booking ''b2'' ''c1'' 2) = None"
    and nm: "name example_restaurant = ''Bistro''"
    by (simp_all add: example_defs)
  show ?thesis
    by (simp add: createBooking_def example_check createBooking_transaction_def Let_def
        example_newBooking saved nm)
qed

text \<open>
  C9. Whatever \<open>createBooking\<close> answers, it either leaves the booking collection as it
  was and does not answer 201, or appends exactly one booking, whose status is
  \<open>confirmed\<close> (so not \<open>pending\<close>), and answers 201 with that booking.
\<close>

theorem createBooking_status_confirmed:
  assumes "createBooking e cId body st = (resp, st')"
  shows "(bookings st' = bookings st \<and> (\<forall>p. resp \<noteq> Json 201 p)) \<or>
         (\<exists>b. bookings st' = bookings st @ [b] \<and> status b = Confirmed \<and>
              status b \<noteq> Pending \<and>
              (\<exists>n. resp = Json 201 (BookingBody ''Booking created successfully'' b n)))"
proof (cases "createBooking_check e cId body st")
  case (Inl a)
  with assms have a: "a = (resp, st')" by (simp add: createBooking_def)
  with Inl show ?thesis
    using createBooking_check_reads createBooking_check_not_created by blast
next
  case (Inr ru)
  obtain r u where "ru = (r, u)" by (cases ru)
  with Inr assms have "createBooking_transaction e cId body r u st = (resp, st')"
    by (simp add: createBooking_def)
  from createBooking_transaction_bookings[OF this] show ?thesis
    by (auto simp: newBooking_def)
qed

theorem createBooking_status_confirmed_witness:
  "\<exists>st'. createBooking example_env ''c1'' (example_request 2) example_state =
           (Json 201 (BookingBody ''Booking created successfully''
              (example_booking ''b2'' ''c1'' 2) (Some ''Bistro'')), st') \<and>
         bookings st' = bookings example_state @ [example_booking ''b2'' ''c1'' 2] \<and>
         status (example_booking ''b2'' ''c1'' 2) = Confirmed"
proof -
  obtain resp st' where
    run: "createBooking example_env ''c1'' (example_request 2) example_state = (resp, st')"
    by (cases "createBooking example_env ''c1'' (example_request 2) example_state")
  from example_created run
  have resp: "resp = Json 201 (BookingBody ''Booking created successfully''
              (example_booking ''b2'' ''c1'' 2) (Some ''Bistro''))"
    by simp
  from createBooking_status_confirmed [OF run] resp
  obtain b where b: "bookings st' = bookings example_state @ [b]" "status b = Confirmed"
    "resp = Json 201 (BookingBody ''Booking created successfully'' b (Some ''Bistro''))"
    by auto
  with resp have "b = example_booking ''b2'' ''c1'' 2" by simp
  with b run resp show ?thesis by auto
qed

text \<open>
  C8. When a request passes every check and the save commits, \<open>createBooking\<close> answers
  201 with the created booking and the booking is in the store, and exactly one
  confirmation e-mail for that booking has been attempted, whatever the mailer does; when
  the mailer throws, the failure is logged and the answer and the stored booking are the
  same.
\<close>

theorem createBooking_email_isolated:
  assumes chk: "createBooking_check e cId body st = Inr (r, u)"
    and saved: "saveBooking e (newBooking e cId body st) = None"
  shows "\<exists>st'. createBooking e cId body st =
           (Json 201 (BookingBody ''Booking created successfully''
              (newBooking e cId body st) (Some (name r))), st') \<and>
         bookings st' = bookings st @ [newBooking e cId body st] \<and>
         emailAttempts st' = emailAttempts st @ [(email u, newBooking e cId body st)] \<and>
         (\<forall>m. sendBookingConfirmationEmail e (email u) (newBooking e cId body st) = Some m
            \<longrightarrow> ''Failed to send confirmation email:'' \<in> set (logs st'))"
  using assms
  by (auto simp: createBooking_def createBooking_transaction_def Let_def
        sendConfirmationEmail_def logError_def split: option.splits)

theorem createBooking_email_isolated_witness:
  "sendBookingConfirmationEmail example_env ''c1@example.org''
     (example_booking ''b2'' ''c1'' 2) = Some ''SMTP unreachable'' \<and>
   (\<exists>st'. createBooking example_env ''c1'' (example_request 2) example_state =
           (Json 201 (BookingBody ''Booking created successfully''
              (example_booking ''b2'' ''c1'' 2) (Some ''Bistro'')), st') \<and>
         bookings st' = bookings example_state @ [example_booking ''b2'' ''c1'' 2] \<and>
         emailAttempts st' = [(''c1@example.org'', example_booking ''b2'' ''c1'' 2)] \<and>
         ''Failed to send confirmation email:'' \<in> set (logs st'))"
proof -
  have fails: "sendBookingConfirmationEmail example_env ''c1@example.org''
     (example_booking ''b2'' ''c1'' 2) = Some ''SMTP unreachable''"
    by (simp add: example_defs)
  have saved: "saveBooking example_env
     (newBooking example_env ''c1'' (example_request 2) example_state) = None"
    by (simp add: example_defs)
  have nm: "name example_restaurant = ''Bistro''" "emailAttempts example_state = []"
    by (simp_all add: example_defs)
  from createBooking_email_isolated [OF example_check saved] fails
  show ?thesis
    by (simp add: example_newBooking nm)
qed

text \<open>
  C3. The capacity check of \<open>createBooking\<close> runs before the session is started, outside
  the transaction. With 18 of 20 seats taken, two requests for 2 guests each whose checks
  both run before either save are both answered 201, and the slot then holds 22 guests.
\<close>

theorem createBooking_interleaved_overbooks:
  "\<exists>resp1 resp2 st2.
     interleaved example_env ''c1'' (example_request 2) ''c2'' (example_request 2)
       example_state = Some (resp1, resp2, st2) \<and>
     isCreated resp1 \<and> isCreated resp2 \<and>
     committedGuests (bookings example_state) ''r1'' ''2025-07-04'' ''19:00'' = 18 \<and>
     committedGuests (bookings st2) ''r1'' ''2025-07-04'' ''19:00'' = 22 \<and>
     capacity example_restaurant = 20"
  by (simp add: interleaved_def createBooking_check_def createBooking_transaction_def
      example_defs Let_def getOpeningHours_def isRestaurantClosed_def
      aggregateTotalGuests_def activeStatus_def bookedGuestsOf_def newBooking_def
      sendConfirmationEmail_def logError_def isCreated_def committedGuests_def)

lemma committedGuests_append:
  "committedGuests (bs @ [b]) r d t =
     committedGuests bs r d t +
     (if restaurantId b = r \<and> date b = d \<and> time b = t \<and>
         (status b = Confirmed \<or> status b = Pending) then guests b else 0)"
  by (auto simp: committedGuests_def)

lemma createBooking_check_capacity:
  "createBooking_check e cId body st = Inr (r, u) \<Longrightarrow>
     findRestaurantById e (restaurants st) (b_restaurantId body) = Inr r \<and>
     b_guests body \<le> capacity r -
       committedGuests (bookings st) (b_restaurantId body) (b_date body) (b_time body)"
  by (auto simp: createBooking_check_def Let_def bookedGuestsOf_aggregate
           split: option.splits sum.splits if_splits)

text \<open>
  Run one after another, the requests keep the capacity invariant of the slot they book.
\<close>

lemma createBooking_sequential_capacity:
  assumes run: "createBooking e cId body st = (resp, st')"
    and found: "findRestaurantById e (restaurants st) (b_restaurantId body) = Inr r"
    and inv: "committedGuests (bookings st) (b_restaurantId body) (b_date body) (b_time body)
                \<le> capacity r"
  shows "committedGuests (bookings st') (b_restaurantId body) (b_date body) (b_time body)
           \<le> capacity r"
proof (cases "createBooking_check e cId body st")
  case (Inl a)
  with run have "a = (resp, st')" by (simp add: createBooking_def)
  with Inl inv show ?thesis using createBooking_check_reads by metis
next
  case (Inr ru)
  obtain r' u where ru: "ru = (r', u)" by (cases ru)
  with Inr run have t: "createBooking_transaction e cId body r' u st = (resp, st')"
    by (simp add: createBooking_def)
  from Inr ru found have cap: "b_guests body \<le> capacity r -
       committedGuests (bookings st) (b_restaurantId body) (b_date body) (b_time body)"
    using createBooking_check_capacity by fastforce
  from createBooking_transaction_bookings[OF t] show ?thesis
  proof
    assume "bookings st' = bookings st \<and> (\<forall>p. resp \<noteq> Json 201 p)"
    with inv show ?thesis by simp
  next
    assume "bookings st' = bookings st @ [newBooking e cId body st] \<and>
      resp = Json 201 (BookingBody ''Booking created successfully''
               (newBooking e cId body st) (Some (name r')))"
    with cap show ?thesis
      by (simp add: committedGuests_append newBooking_def)
  qed
qed

section \<open>Cancellation: the claim\<close>

lemma find_SomeD: "find P xs = Some x \<Longrightarrow> x \<in> set xs \<and> P x"
  by (induction xs) (auto split: if_splits)

lemma findUserBookingById_owned:
  "findUserBookingById bs rs i c = Inr (b, populated) \<Longrightarrow>
     b \<in> set bs \<and> bookingId b = i \<and> customerId b = c \<and>
     populated = populateRestaurant rs (restaurantId b)"
  by (auto simp: findUserBookingById_def split: option.splits dest: find_SomeD)

lemma committedGuests_saveDocument:
  "status b' = Cancelled \<Longrightarrow>
     committedGuests (saveDocument b' bs) r d t =
     committedGuests (filter (\<lambda>x. bookingId x \<noteq> bookingId b') bs) r d t"
  by (induction bs) (auto simp: committedGuests_def saveDocument_def)

lemma saveDocument_cancelled:
  "x \<in> set (saveDocument (b\<lparr>status := Cancelled\<rparr>) bs) \<Longrightarrow> bookingId x = bookingId b \<Longrightarrow>
     status x = Cancelled"
  by (auto simp: saveDocument_def split: if_splits)

lemma userBookingsKey_all:
  "userBookingsKey c None None None = ''user-bookings-'' @ c @ ''-all--''"
  by (simp add: userBookingsKey_def)

lemma availabilityKey_inject:
  "availabilityKey r d = availabilityKey r' d \<longleftrightarrow> r = r'"
  by (simp add: availabilityKey_def)

lemma userKey_not_availabilityKey:
  "''user-bookings-'' @ c @ ''-all--'' \<noteq> availabilityKey r d"
  by (simp add: availabilityKey_def)

lemma cancelBooking_success:
  assumes run: "cancelBooking e cId i st = (Json 200 p, st')"
  shows "\<exists>b r. findUserBookingById (bookings st) (restaurants st) i cId = Inr (b, Some r) \<and>
             status b \<noteq> Cancelled \<and> \<not> isPast e b \<and>
             p = BookingBody ''Booking cancelled successfully'' (b\<lparr>status := Cancelled\<rparr>)
                   (Some (p_name r)) \<and>
             st' = st\<lparr>bookings := saveDocument (b\<lparr>status := Cancelled\<rparr>) (bookings st),
                      bookingCache := (bookingCache st)
                        (''user-bookings-'' @ cId @ ''-all--'' := None,
                         availabilityKey (documentToString e r) (date b) := None)\<rparr>"
  using run
  by (auto simp: cancelBooking_def Let_def handleBookingError_def renderRestaurantId_def
           split: sum.splits if_splits option.splits thrown.splits prod.splits)

lemma cancelBooking_rejects:
  assumes found: "findUserBookingById (bookings st) (restaurants st) i cId = Inr (b, populated)"
    and bad: "status b = Cancelled \<or> isPast e b"
  shows "cancelBooking e cId i st =
           (SendValidationError (if status b = Cancelled then ''Booking is already cancelled''
                                 else ''Cannot cancel past bookings''), st)"
  using assms by (auto simp: cancelBooking_def)

lemma cancelBooking_not_found:
  assumes "findUserBookingById (bookings st) (restaurants st) i cId = Inl err"
  shows "cancelBooking e cId i st =
           (handleBookingError err, logError ''Cancel booking error:'' st)"
  using assms by (simp add: cancelBooking_def)

lemma handleBookingError_not_json: "handleBookingError err \<noteq> Json code p"
  by (simp add: handleBookingError_def split: thrown.splits)

text \<open>
  What a cancellation does keep of its rules. It is answered 200 only for a booking of
  the store with the requested id whose customer is the requesting user, that is not yet
  cancelled and not in the past. Then every booking with that id has status
  \<open>cancelled\<close>, the cache entry \<open>user-bookings-<customer>-all--\<close> is deleted, and for every
  slot the tally of confirmed or pending guests is the tally of the other bookings. A
  booking of the user that is already cancelled or lies in the past is answered with a
  validation error and the state is unchanged; without such a booking the answer is no
  success and no booking changes.
\<close>

lemma cancelBooking_effects:
  assumes run: "cancelBooking e cId i st = (resp, st')"
  shows "(\<forall>p. resp = Json 200 p \<longrightarrow>
            (\<exists>b. b \<in> set (bookings st) \<and> bookingId b = i \<and> customerId b = cId \<and>
                 status b \<noteq> Cancelled \<and> \<not> isPast e b \<and>
                 b\<lparr>status := Cancelled\<rparr> \<in> set (bookings st') \<and>
                 (\<forall>x \<in> set (bookings st'). bookingId x = i \<longrightarrow> status x = Cancelled) \<and>
                 bookingCache st' (userBookingsKey cId None None None) = None \<and>
                 (\<forall>r d t. committedGuests (bookings st') r d t =
                    committedGuests (filter (\<lambda>x. bookingId x \<noteq> i) (bookings st)) r d t)))
       \<and> (\<forall>b populated.
               findUserBookingById (bookings st) (restaurants st) i cId = Inr (b, populated) \<and>
               (status b = Cancelled \<or> isPast e b) \<longrightarrow>
               (\<exists>m. resp = SendValidationError m) \<and> st' = st)
       \<and> (\<forall>err. findUserBookingById (bookings st) (restaurants st) i cId = Inl err \<longrightarrow>
               (\<forall>p. resp \<noteq> Json 200 p) \<and> bookings st' = bookings st)"
proof (intro conjI allI impI)
  fix p
  assume "resp = Json 200 p"
  with run have "cancelBooking e cId i st = (Json 200 p, st')" by simp
  from cancelBooking_success [OF this] obtain b r where
    found: "findUserBookingById (bookings st) (restaurants st) i cId = Inr (b, Some r)"
    and live: "status b \<noteq> Cancelled" "\<not> isPast e b"
    and st': "st' = st\<lparr>bookings := saveDocument (b\<lparr>status := Cancelled\<rparr>) (bookings st),
                      bookingCache := (bookingCache st)
                        (''user-bookings-'' @ cId @ ''-all--'' := None,
                         availabilityKey (documentToString e r) (date b) := None)\<rparr>"
    by blast
  from findUserBookingById_owned [OF found]
  have own: "b \<in> set (bookings st)" "bookingId b = i" "customerId b = cId" by simp_all
  have stored: "b\<lparr>status := Cancelled\<rparr> \<in> set (bookings st')"
    using own(1) by (force simp: st' saveDocument_def)
  have all: "\<forall>x \<in> set (bookings st'). bookingId x = i \<longrightarrow> status x = Cancelled"
    using saveDocument_cancelled [of _ b "bookings st"] own(2)
    by (auto simp: st')
  have k2: "bookingCache st' (userBookingsKey cId None None None) = None"
    by (simp add: st' userBookingsKey_all userKey_not_availabilityKey)
  have tally: "\<forall>r d t. committedGuests (bookings st') r d t =
                 committedGuests (filter (\<lambda>x. bookingId x \<noteq> i) (bookings st)) r d t"
    using committedGuests_saveDocument [of "b\<lparr>status := Cancelled\<rparr>" "bookings st"] own(2)
    by (simp add: st')
  from own live stored all k2 tally
  show "\<exists>b. b \<in> set (bookings st) \<and> bookingId b = i \<and> customerId b = cId \<and>
                 status b \<noteq> Cancelled \<and> \<not> isPast e b \<and>
                 b\<lparr>status := Cancelled\<rparr> \<in> set (bookings st') \<and>
                 (\<forall>x \<in> set (bookings st'). bookingId x = i \<longrightarrow> status x = Cancelled) \<and>
                 bookingCache st' (userBookingsKey cId None None None) = None \<and>
                 (\<forall>r d t. committedGuests (bookings st') r d t =
                    committedGuests (filter (\<lambda>x. bookingId x \<noteq> i) (bookings st)) r d t)"
    by blast
next
  fix b populated
  assume a: "findUserBookingById (bookings st) (restaurants st) i cId = Inr (b, populated) \<and>
               (status b = Cancelled \<or> isPast e b)"
  then have r: "cancelBooking e cId i st =
           (SendValidationError (if status b = Cancelled then ''Booking is already cancelled''
                                 else ''Cannot cancel past bookings''), st)"
    using cancelBooking_rejects by blast
  with run show "\<exists>m. resp = SendValidationError m" by auto
  from r run show "st' = st" by simp
next
  fix err p
  assume "findUserBookingById (bookings st) (restaurants st) i cId = Inl err"
  from cancelBooking_not_found [OF this] run
  show "resp \<noteq> Json 200 p" by (auto simp: handleBookingError_not_json)
next
  fix err
  assume "findUserBookingById (bookings st) (restaurants st) i cId = Inl err"
  from cancelBooking_not_found [OF this] run
  show "bookings st' = bookings st" by (auto simp: logError_def)
qed

text \<open>
  The availability entry of the booking's restaurant and date is deleted by a successful
  cancellation only if the populated document's string form is the restaurant id itself;
  otherwise the entry is what it was before.
\<close>

lemma cancelBooking_availability_entry:
  assumes run: "cancelBooking e cId i st = (Json 200 p, st')"
    and found: "findUserBookingById (bookings st) (restaurants st) i cId = Inr (b, Some r)"
  shows "bookingCache st' (availabilityKey (restaurantId b) (date b)) =
           (if documentToString e r = restaurantId b then None
            else bookingCache st (availabilityKey (restaurantId b) (date b)))"
proof -
  from cancelBooking_success [OF run] found
  have "st' = st\<lparr>bookings := saveDocument (b\<lparr>status := Cancelled\<rparr>) (bookings st),
                      bookingCache := (bookingCache st)
                        (''user-bookings-'' @ cId @ ''-all--'' := None,
                         availabilityKey (documentToString e r) (date b) := None)\<rparr>"
    by auto
  then show ?thesis
    using userKey_not_availabilityKey [of cId "restaurantId b" "date b"]
    by (auto simp: availabilityKey_inject)
qed

lemma example_availability:
  "getAvailability example_env ''r1'' ''2025-07-04'' example_state =
     (Json 200 example_availability_body, example_cached_state)"
proof -
  have early: "committedGuests (bookings example_state) ''r1'' ''2025-07-04'' ''17:00'' = 0"
    by (simp add: committedGuests_def example_defs)
  have miss: "bookingCache example_state (availabilityKey ''r1'' ''2025-07-04'') = None"
    and valid: "validateAvailabilityInput example_env ''r1'' ''2025-07-04'' = None"
    and slots: "generateTimeSlots example_env ''17:00'' ''22:00'' = [''17:00'', ''19:00'']"
    and day: "getDayOfWeek example_env ''2025-07-04'' = ''friday''"
    and cap: "capacity example_restaurant = 20" "name example_restaurant = ''Bistro''"
    by (simp_all add: example_defs)
  show ?thesis
    using example_friday
    by (simp add: getAvailability_def miss valid example_found day isRestaurantClosed_def
        slots slotFor_def Let_def countBookings_committedGuests early example_committed cap
        example_availability_body_def example_availability_body_slots_def
        example_cached_state_def numeral_2_eq_2)
qed

lemma example_cancel_cached:
  "cancelBooking example_env ''c1'' ''b0'' example_cached_state =
     (Json 200 (BookingBody ''Booking cancelled successfully''
        ((example_booking ''b0'' ''c1'' 10)\<lparr>status := Cancelled\<rparr>) (Some ''Bistro'')),
      example_cancelled_state)"
  by (simp add: cancelBooking_def findUserBookingById_def populateRestaurant_def isPast_def
      Let_def saveDocument_def renderRestaurantId_def example_cached_state_def
      example_cancelled_state_def example_defs)

text \<open>
  C5. On the example store the availability of restaurant \<open>r1\<close> on 2025-07-04 is
  computed and cached (2 of 20 seats left at 19:00). Customer \<open>c1\<close> then cancels the
  booking \<open>b0\<close> of 10 guests and is answered 200. The availability key that
  \<open>cancelBooking\<close> deletes is rendered from the populated \<open>restaurantId\<close>, not from the
  restaurant's id, so the entry \<open>availability-r1-2025-07-04\<close> is still in the cache: the
  store now leaves 12 seats at 19:00, and the next availability request is answered from
  the cache with 2.
\<close>

theorem cancelBooking_keeps_availability_entry:
  "\<exists>p. getAvailability example_env ''r1'' ''2025-07-04'' example_state =
         (Json 200 example_availability_body, example_cached_state) \<and>
       slot_time (example_availability_body_slots ! 1) = ''19:00'' \<and>
       availableCapacity (example_availability_body_slots ! 1) = 2 \<and>
       cancelBooking example_env ''c1'' ''b0'' example_cached_state =
         (Json 200 p, example_cancelled_state) \<and>
       capacity example_restaurant -
         committedGuests (bookings example_cancelled_state) ''r1'' ''2025-07-04'' ''19:00'' = 12 \<and>
       bookingCache example_cancelled_state (availabilityKey ''r1'' ''2025-07-04'') =
         Some example_availability_body \<and>
       getAvailability example_env ''r1'' ''2025-07-04'' example_cancelled_state =
         (Json 200 example_availability_body, example_cancelled_state)"
proof -
  have tally: "capacity example_restaurant -
         committedGuests (bookings example_cancelled_state) ''r1'' ''2025-07-04'' ''19:00'' = 12"
    by (simp add: committedGuests_def example_cancelled_state_def example_cached_state_def
        example_defs)
  have kept: "bookingCache example_cancelled_state (availabilityKey ''r1'' ''2025-07-04'') =
         Some example_availability_body"
    by (simp add: example_cancelled_state_def example_cached_state_def availabilityKey_def
        example_defs)
  have again: "getAvailability example_env ''r1'' ''2025-07-04'' example_cancelled_state =
         (Json 200 example_availability_body, example_cancelled_state)"
    by (simp add: getAvailability_def kept)
  have slot: "slot_time (example_availability_body_slots ! 1) = ''19:00''"
    "availableCapacity (example_availability_body_slots ! 1) = 2"
    by (simp_all add: example_availability_body_slots_def)
  from example_availability example_cancel_cached tally kept again slot
  show ?thesis by blast
qed

section \<open>Restaurants: the claims\<close>

lemma deleteRestaurant_success:
  assumes "deleteRestaurant e owner i st = (Json 200 p, st')"
  shows "\<exists>found. find (\<lambda>r. rid r = i) (restaurants st) = Some found \<and>
           ownerId found = owner \<and> p = MessageBody ''Restaurant deleted successfully'' \<and>
           st' = st\<lparr>restaurants :=
                     saveRestaurantDocument (found\<lparr>isActive := False\<rparr>) (restaurants st)\<rparr>"
  using assms
  by (auto simp: deleteRestaurant_def findById_def Let_def
           split: sum.splits if_splits option.splits)

lemma saveRestaurantDocument_ids:
  "map rid (saveRestaurantDocument r rs) = map rid rs"
  by (induction rs) (auto simp: saveRestaurantDocument_def)

lemma saveRestaurantDocument_inactive:
  "x \<in> set (saveRestaurantDocument (r\<lparr>isActive := False\<rparr>) rs) \<Longrightarrow> rid x = rid r \<Longrightarrow>
     \<not> isActive x"
  by (auto simp: saveRestaurantDocument_def split: if_splits)

lemma find_saved_other:
  "x \<noteq> rid r' \<Longrightarrow>
     find (\<lambda>y. rid y = x) (saveRestaurantDocument r' rs) = find (\<lambda>y. rid y = x) rs"
  by (induction rs) (auto simp: saveRestaurantDocument_def)

lemma find_saved_same:
  "find (\<lambda>y. rid y = rid r') rs = Some found \<Longrightarrow>
     find (\<lambda>y. rid y = rid r') (saveRestaurantDocument r' rs) = Some r'"
  by (induction rs) (auto simp: saveRestaurantDocument_def split: if_splits)

lemma populateRestaurant_saved:
  assumes "find (\<lambda>r. rid r = i) rs = Some found"
  shows "populateRestaurant (saveRestaurantDocument (found\<lparr>isActive := False\<rparr>) rs) x =
         populateRestaurant rs x"
proof (cases "x = i")
  case True
  from assms have i: "rid found = i" using find_SomeD by fastforce
  with assms find_saved_same [of "found\<lparr>isActive := False\<rparr>" rs found] True
  show ?thesis by (simp add: populateRestaurant_def)
next
  case False
  from assms have "rid found = i" using find_SomeD by fastforce
  with False find_saved_other [of x "found\<lparr>isActive := False\<rparr>" rs]
  show ?thesis by (simp add: populateRestaurant_def)
qed

lemma set_map_filter_iff:
  "y \<in> set (List.map_filter f xs) \<longleftrightarrow> (\<exists>x \<in> set xs. f x = Some y)"
  by (induction xs) (auto split: option.splits)

lemma getBookingById_after_save:
  assumes "find (\<lambda>r. rid r = i) (restaurants st) = Some found"
  shows "fst (getBookingById c b
            (st\<lparr>restaurants :=
                 saveRestaurantDocument (found\<lparr>isActive := False\<rparr>) (restaurants st)\<rparr>)) =
         fst (getBookingById c b st)"
  using populateRestaurant_saved [OF assms]
  by (simp add: getBookingById_def findUserBookingById_def split: option.splits)

lemma set_geoNear:
  "geoNear e near m query rs = Inr found \<Longrightarrow> rd \<in> set found \<Longrightarrow>
     fst rd \<in> set rs \<and> query (fst rd) \<and> snd rd \<le> m \<and>
     (\<exists>g. geometry (fst rd) = Some g \<and> snd rd = geoDistance e near g)"
  by (auto simp: geoNear_def set_map_filter_iff withDistance_def
           split: if_splits option.splits)

lemma sorted_geoNear:
  "geoNear e near m query rs = Inr found \<Longrightarrow> sorted (map snd found)"
  by (auto simp: geoNear_def split: if_splits)

lemma set_aggregatePage:
  "aggregatePage skip limit xs = Inr rows \<Longrightarrow> set rows \<subseteq> set xs"
  by (auto simp: aggregatePage_def split: option.splits if_splits
           dest: in_set_takeD in_set_dropD)

lemma sorted_aggregatePage:
  "aggregatePage skip limit xs = Inr rows \<Longrightarrow> sorted (map f xs) \<Longrightarrow> sorted (map f rows)"
  by (auto simp: aggregatePage_def take_map [symmetric] drop_map [symmetric]
           split: option.splits if_splits)

lemma set_findPage:
  "findPage skip limit xs = Inr rows \<Longrightarrow> set rows \<subseteq> set xs"
  by (auto simp: findPage_def split: option.splits if_splits
           dest: in_set_takeD in_set_dropD)

lemma nearbyAggregate_rows:
  assumes "nearbyAggregate e q near radiusKm skip limit rs = Inr (rows, n)"
  shows "(\<forall>rd \<in> set rows. fst rd \<in> set rs \<and> nearbyFilter e q (fst rd) \<and>
            snd rd \<le> radiusKm * 1000 \<and>
            (\<exists>g. geometry (fst rd) = Some g \<and> snd rd = geoDistance e near g)) \<and>
         sorted (map snd rows)"
proof -
  from assms obtain found where
    g: "geoNear e near (radiusKm * 1000) (nearbyFilter e q) rs = Inr found"
    and pg: "aggregatePage skip limit (sort_key snd found) = Inr rows"
    by (auto simp: nearbyAggregate_def split: sum.splits)
  from set_aggregatePage [OF pg] have "set rows \<subseteq> set found" by simp
  with set_geoNear [OF g] have a: "\<forall>rd \<in> set rows. fst rd \<in> set rs \<and>
       nearbyFilter e q (fst rd) \<and> snd rd \<le> radiusKm * 1000 \<and>
       (\<exists>g. geometry (fst rd) = Some g \<and> snd rd = geoDistance e near g)"
    by blast
  from sorted_aggregatePage [OF pg, of snd] have "sorted (map snd rows)" by simp
  with a show ?thesis by simp
qed

lemma nearbyFallback_rows:
  assumes "nearbyFallback e q skip limit rs = Inr (rows, n)"
  shows "\<forall>rd \<in> set rows. fst rd \<in> set rs \<and> nearbyFilter e q (fst rd) \<and> snd rd = 1000"
proof -
  from assms obtain page where
    pg: "findPage skip limit (filter (nearbyFilter e q) rs) = Inr page"
    and rows: "rows = map (\<lambda>r. (r, 1000)) page"
    by (auto simp: nearbyFallback_def split: sum.splits if_splits)
  from set_findPage [OF pg] rows show ?thesis by auto
qed

lemma getNearbyRestaurants_cases:
  assumes run: "getNearbyRestaurants e q st = (Json 200 (NearbyBody rows n), st')"
  shows "\<exists>lat lng radiusKm.
           parseFloat e (orDefault (q_latitude q) []) = Some lat \<and>
           parseFloat e (orDefault (q_longitude q) []) = Some lng \<and>
           parseFloat e (orDefault (q_radius q) ''5'') = Some radiusKm \<and>
           - 90 \<le> lat \<and> lat \<le> 90 \<and> - 180 \<le> lng \<and> lng \<le> 180 \<and> 0 < radiusKm \<and>
           (nearbyAggregate e q (lng, lat) radiusKm
              (skipOf (parseInt e (orDefault (q_page q) ''1''))
                 (parseInt e (orDefault (q_limit q) ''10'')))
              (parseInt e (orDefault (q_limit q) ''10'')) (restaurants st) = Inr (rows, n)
            \<or>
            (\<exists>geoError.
               nearbyAggregate e q (lng, lat) radiusKm
                 (skipOf (parseInt e (orDefault (q_page q) ''1''))
                    (parseInt e (orDefault (q_limit q) ''10'')))
                 (parseInt e (orDefault (q_limit q) ''10'')) (restaurants st) = Inl geoError \<and>
               nearbyFallback e q
                 (skipOf (parseInt e (orDefault (q_page q) ''1''))
                    (parseInt e (orDefault (q_limit q) ''10'')))
                 (parseInt e (orDefault (q_limit q) ''10'')) (restaurants st) = Inr (rows, n)))"
  using run
  by (auto simp: getNearbyRestaurants_def Let_def
           split: if_splits option.splits sum.splits prod.splits)



lemma example_nearby:
  "getNearbyRestaurants example_env nearby_query example_state =
     (Json 200 (NearbyBody [(restaurant_at ''r2'' ''Anchor'' 1 True, 1000),
                            (example_restaurant, 2000)] 2), example_state)"
  by (simp add: getNearbyRestaurants_def nearbyAggregate_def geoNear_def validPoint_def
      withDistance_def nearbyFilter_def cuisineMatches_def priceMatches_def priceCastFails_def present_def
      orDefault_def skipOf_def aggregatePage_def Let_def nearby_query_def example_defs)

lemma example_nearby_degraded:
  "getNearbyRestaurants (example_env\<lparr>geoIndexAvailable := False\<rparr>) nearby_query example_state =
     (Json 200 (NearbyBody [(example_restaurant, 1000),
                            (restaurant_at ''r2'' ''Anchor'' 1 True, 1000),
                            (restaurant_at ''r3'' ''Zen'' 9 True, 1000)] 3), example_state)"
  by (simp add: getNearbyRestaurants_def nearbyAggregate_def nearbyFallback_def geoNear_def
      findPage_def nearbyFilter_def cuisineMatches_def priceMatches_def priceCastFails_def present_def
      orDefault_def skipOf_def Let_def nearby_query_def example_defs)

lemma example_listing:
  "getRestaurants example_env example_query example_state =
     (Json 200 (ListBody [restaurant_at ''r2'' ''Anchor'' 1 True, example_restaurant,
                          restaurant_at ''r3'' ''Zen'' 9 True] 3 False),
      example_state\<lparr>restaurantCache := (restaurantCache example_state)
         (BrowseKey example_query \<mapsto>
            ListBody [restaurant_at ''r2'' ''Anchor'' 1 True, example_restaurant,
                      restaurant_at ''r3'' ''Zen'' 9 True] 3 False)\<rparr>)"
  by (simp add: getRestaurants_def queryRestaurants_def noFilters_def findPage_def
      cuisineMatches_def priceMatches_def priceCastFails_def present_def
      orDefault_def skipOf_def Let_def example_defs)


lemma getNearbyRestaurants_active:
  assumes "getNearbyRestaurants e q st = (Json 200 (NearbyBody rows n), st')"
  shows "\<forall>rd \<in> set rows. fst rd \<in> set (restaurants st) \<and> isActive (fst rd)"
  using getNearbyRestaurants_cases [OF assms] nearbyAggregate_rows nearbyFallback_rows
  unfolding nearbyFilter_def by blast

lemma fromCache_not_computed: "fromCache cached \<noteq> ListBody rows n False"
  by (cases cached) (simp_all add: fromCache_def)

lemma getRestaurants_computed:
  assumes "getRestaurants e q st = (Json 200 (ListBody rows n False), st')"
  shows "queryRestaurants e q (restaurants st) = Listed rows n"
  using assms
  by (auto simp: getRestaurants_def Let_def fromCache_not_computed
           split: option.splits listing.splits if_splits)

lemma queryRestaurants_active:
  assumes "queryRestaurants e q rs = Listed rows n"
  shows "\<forall>r \<in> set rows. r \<in> set rs \<and> isActive r"
proof (cases "present (q_latitude q) \<and> present (q_longitude q)")
  case True
  from True assms obtain pt m found skip limit page where
    near: "geoNear e pt m (\<lambda>r. True) rs = Inr found"
    and pg: "aggregatePage skip limit
               (sort_key snd (filter (\<lambda>rd. isActive (fst rd) \<and> cuisineMatches q (fst rd) \<and>
                  priceMatches e q (fst rd)) found)) = Inr page"
    and rows: "rows = map fst page"
    by (auto simp: queryRestaurants_def Let_def split: option.splits sum.splits)
  from set_aggregatePage [OF pg]
  have "\<forall>rd \<in> set page. rd \<in> set found \<and> isActive (fst rd)" by auto
  with set_geoNear [OF near] rows show ?thesis by auto
next
  case False
  with assms obtain locationMatches skip limit where
    pg: "findPage skip limit
           (sort_key name (filter (\<lambda>r. isActive r \<and> locationMatches (location r) \<and>
              cuisineMatches q r \<and> priceMatches e q r) rs)) = Inr rows"
    by (auto simp: queryRestaurants_def Let_def split: option.splits sum.splits if_splits)
  from set_findPage [OF pg] show ?thesis by auto
qed

text \<open>
  C7. When a nearby search is answered 200, its centre and radius parsed to \<open>lat\<close>,
  \<open>lng\<close> and \<open>radiusKm\<close>: if the geospatial query succeeded, every row is an active
  restaurant of the store whose distance field is the store's distance from the centre
  to its geometry and is at most \<open>radiusKm * 1000\<close>, and the rows are in ascending order
  of distance; if the geospatial query failed, every row is an active restaurant with the
  placeholder distance 1000.
\<close>

theorem getNearbyRestaurants_within_radius:
  assumes run: "getNearbyRestaurants e q st = (Json 200 (NearbyBody rows n), st')"
    and lat: "parseFloat e (orDefault (q_latitude q) []) = Some lat"
    and lng: "parseFloat e (orDefault (q_longitude q) []) = Some lng"
    and rad: "parseFloat e (orDefault (q_radius q) ''5'') = Some radiusKm"
    and lim: "limit = parseInt e (orDefault (q_limit q) ''10'')"
    and skp: "skip = skipOf (parseInt e (orDefault (q_page q) ''1'')) limit"
  shows "case nearbyAggregate e q (lng, lat) radiusKm skip limit (restaurants st) of
           Inr res \<Rightarrow>
             (\<forall>rd \<in> set rows. fst rd \<in> set (restaurants st) \<and> isActive (fst rd) \<and>
                (\<exists>g. geometry (fst rd) = Some g \<and> snd rd = geoDistance e (lng, lat) g) \<and>
                snd rd \<le> radiusKm * 1000) \<and>
             sorted (map snd rows)
         | Inl geoError \<Rightarrow>
             (\<forall>rd \<in> set rows. fst rd \<in> set (restaurants st) \<and> isActive (fst rd) \<and>
                snd rd = 1000)"
proof (cases "nearbyAggregate e q (lng, lat) radiusKm skip limit (restaurants st)")
  case (Inl geoError)
  with getNearbyRestaurants_cases [OF run] lat lng rad lim skp
  have "nearbyFallback e q skip limit (restaurants st) = Inr (rows, n)" by auto
  from nearbyFallback_rows [OF this] Inl show ?thesis
    by (simp add: nearbyFilter_def)
next
  case (Inr res)
  with getNearbyRestaurants_cases [OF run] lat lng rad lim skp
  have "nearbyAggregate e q (lng, lat) radiusKm skip limit (restaurants st) = Inr (rows, n)"
    by auto
  from nearbyAggregate_rows [OF this] Inr show ?thesis
    by (simp add: nearbyFilter_def)
qed

theorem getNearbyRestaurants_within_radius_witness:
  "getNearbyRestaurants example_env nearby_query example_state =
     (Json 200 (NearbyBody [(restaurant_at ''r2'' ''Anchor'' 1 True, 1000),
                            (example_restaurant, 2000)] 2), example_state) \<and>
   parseFloat example_env (orDefault (q_radius nearby_query) ''5'') = Some 5 \<and>
   list_all (\<lambda>rd. snd rd \<le> 5 * 1000)
     [(restaurant_at ''r2'' ''Anchor'' 1 True, 1000), (example_restaurant, 2000::real)] \<and>
   sorted (map snd [(restaurant_at ''r2'' ''Anchor'' 1 True, 1000),
                    (example_restaurant, 2000::real)]) \<and>
   getNearbyRestaurants (example_env\<lparr>geoIndexAvailable := False\<rparr>) nearby_query
       example_state =
     (Json 200 (NearbyBody [(example_restaurant, 1000),
                            (restaurant_at ''r2'' ''Anchor'' 1 True, 1000),
                            (restaurant_at ''r3'' ''Zen'' 9 True, 1000)] 3), example_state) \<and>
   list_all (\<lambda>rd. snd rd = 1000)
     [(example_restaurant, 1000), (restaurant_at ''r2'' ''Anchor'' 1 True, 1000),
      (restaurant_at ''r3'' ''Zen'' 9 True, 1000::real)]"
proof -
  let ?degraded = "example_env\<lparr>geoIndexAvailable := False\<rparr>"
  have lat: "parseFloat example_env (orDefault (q_latitude nearby_query) []) = Some 0"
    and lng: "parseFloat example_env (orDefault (q_longitude nearby_query) []) = Some 0"
    and rad: "parseFloat example_env (orDefault (q_radius nearby_query) ''5'') = Some 5"
    by (simp_all add: orDefault_def nearby_query_def example_defs)
  have lat': "parseFloat ?degraded (orDefault (q_latitude nearby_query) []) = Some 0"
    and lng': "parseFloat ?degraded (orDefault (q_longitude nearby_query) []) = Some 0"
    and rad': "parseFloat ?degraded (orDefault (q_radius nearby_query) ''5'') = Some 5"
    by (simp_all add: orDefault_def nearby_query_def example_defs)
  have ok: "nearbyAggregate example_env nearby_query (0, 0) 5
              (skipOf (parseInt example_env (orDefault (q_page nearby_query) ''1''))
                 (parseInt example_env (orDefault (q_limit nearby_query) ''10'')))
              (parseInt example_env (orDefault (q_limit nearby_query) ''10''))
              (restaurants example_state) =
            Inr ([(restaurant_at ''r2'' ''Anchor'' 1 True, 1000), (example_restaurant, 2000)], 2)"
    by (simp add: nearbyAggregate_def geoNear_def validPoint_def
      withDistance_def nearbyFilter_def cuisineMatches_def priceMatches_def priceCastFails_def present_def
      orDefault_def skipOf_def aggregatePage_def Let_def nearby_query_def example_defs)
  have failed: "nearbyAggregate ?degraded nearby_query (0, 0) 5
              (skipOf (parseInt ?degraded (orDefault (q_page nearby_query) ''1''))
                 (parseInt ?degraded (orDefault (q_limit nearby_query) ''10'')))
              (parseInt ?degraded (orDefault (q_limit nearby_query) ''10''))
              (restaurants example_state) = Inl (OtherError ''$geoNear'')"
    by (simp add: nearbyAggregate_def geoNear_def)
  from getNearbyRestaurants_within_radius [OF example_nearby lat lng rad refl refl]
  have near: "list_all (\<lambda>rd. snd rd \<le> 5 * 1000)
     [(restaurant_at ''r2'' ''Anchor'' 1 True, 1000), (example_restaurant, 2000::real)] \<and>
   sorted (map snd [(restaurant_at ''r2'' ''Anchor'' 1 True, 1000),
                    (example_restaurant, 2000::real)])"
    by (simp add: ok)
  from getNearbyRestaurants_within_radius [OF example_nearby_degraded lat' lng' rad' refl refl]
  have placeholder: "list_all (\<lambda>rd. snd rd = 1000)
     [(example_restaurant, 1000), (restaurant_at ''r2'' ''Anchor'' 1 True, 1000),
      (restaurant_at ''r3'' ''Zen'' 9 True, 1000::real)]"
    by (simp add: failed)
  from example_nearby example_nearby_degraded rad near placeholder show ?thesis by simp
qed

text \<open>
  C10 as stated fails: a restaurant fetched while active stays in the cache, and after
  its soft delete \<open>getRestaurantById\<close> still answers 200 from the cache.
\<close>

theorem getRestaurantById_cached_after_delete:
  "\<exists>st1 st2 r.
     getRestaurantById example_env ''r1'' example_state =
       (Json 200 (RestaurantBody example_restaurant False), st1) \<and>
     deleteRestaurant example_env ''o1'' ''r1'' st1 =
       (Json 200 (MessageBody ''Restaurant deleted successfully''), st2) \<and>
     find (\<lambda>x. rid x = ''r1'') (restaurants st2) = Some r \<and> \<not> isActive r \<and>
     getRestaurantById example_env ''r1'' st2 =
       (Json 200 (RestaurantBody example_restaurant True), st2)"
  by (simp add: getRestaurantById_def deleteRestaurant_def findById_def Let_def
      saveRestaurantDocument_def fromCache_def example_defs)

text \<open>
  C10, amended. When the restaurant-details cache has no entry for the id and the id is
  a valid ObjectId, \<open>getRestaurantById\<close> answers 404 for a restaurant whose \<open>isActive\<close>
  flag is false, as it does for an id without a document, and leaves the state as it was.
\<close>

theorem getRestaurantById_inactive:
  assumes miss: "restaurantCache st (RestaurantKey i) = None"
    and valid: "validObjectId e i"
  shows "(\<forall>r. find (\<lambda>x. rid x = i) (restaurants st) = Some r \<and> \<not> isActive r \<longrightarrow>
            getRestaurantById e i st =
              (Json 404 (ErrorBody ''Restaurant is not available''), st)) \<and>
         (find (\<lambda>x. rid x = i) (restaurants st) = None \<longrightarrow>
            getRestaurantById e i st = (Json 404 (ErrorBody ''Restaurant not found''), st))"
  using assms by (simp add: getRestaurantById_def findById_def)

theorem getRestaurantById_inactive_witness:
  "restaurantCache example_state (RestaurantKey ''r4'') = None \<and>
   validObjectId example_env ''r4'' \<and>
   find (\<lambda>x. rid x = ''r4'') (restaurants example_state) =
     Some (restaurant_at ''r4'' ''Yard'' 0 False) \<and>
   \<not> isActive (restaurant_at ''r4'' ''Yard'' 0 False) \<and>
   getRestaurantById example_env ''r4'' example_state =
     (Json 404 (ErrorBody ''Restaurant is not available''), example_state) \<and>
   find (\<lambda>x. rid x = ''r9'') (restaurants example_state) = None \<and>
   getRestaurantById example_env ''r9'' example_state =
     (Json 404 (ErrorBody ''Restaurant not found''), example_state)"
proof -
  have miss: "restaurantCache example_state (RestaurantKey i) = None" for i
    by (simp add: example_defs)
  have valid: "validObjectId example_env ''r4''" "validObjectId example_env ''r9''"
    by (simp_all add: example_defs)
  have r4: "find (\<lambda>x. rid x = ''r4'') (restaurants example_state) =
     Some (restaurant_at ''r4'' ''Yard'' 0 False)"
    and off: "\<not> isActive (restaurant_at ''r4'' ''Yard'' 0 False)"
    and r9: "find (\<lambda>x. rid x = ''r9'') (restaurants example_state) = None"
    by (simp_all add: example_defs)
  from getRestaurantById_inactive [OF miss valid(1)] r4 off
  have a: "getRestaurantById example_env ''r4'' example_state =
     (Json 404 (ErrorBody ''Restaurant is not available''), example_state)"
    by blast
  from getRestaurantById_inactive [OF miss valid(2)] r9
  have b: "getRestaurantById example_env ''r9'' example_state =
     (Json 404 (ErrorBody ''Restaurant not found''), example_state)"
    by blast
  from miss valid r4 off r9 a b show ?thesis by simp
qed

text \<open>
  C6 as stated fails: the default listing is cached, \<open>deleteRestaurant\<close> does not touch
  the cache, and the next default listing is answered from the cache with the
  deactivated restaurant in it.
\<close>

theorem getRestaurants_cached_after_delete:
  "\<exists>st1 st2 r.
     getRestaurants example_env example_query example_state =
       (Json 200 (ListBody [restaurant_at ''r2'' ''Anchor'' 1 True, example_restaurant,
                            restaurant_at ''r3'' ''Zen'' 9 True] 3 False), st1) \<and>
     deleteRestaurant example_env ''o1'' ''r1'' st1 =
       (Json 200 (MessageBody ''Restaurant deleted successfully''), st2) \<and>
     find (\<lambda>x. rid x = ''r1'') (restaurants st2) = Some r \<and> \<not> isActive r \<and>
     getRestaurants example_env example_query st2 =
       (Json 200 (ListBody [restaurant_at ''r2'' ''Anchor'' 1 True, example_restaurant,
                            restaurant_at ''r3'' ''Zen'' 9 True] 3 True), st2) \<and>
     rid example_restaurant = ''r1''"
  by (simp add: example_listing)
     (simp add: getRestaurants_def noFilters_def present_def deleteRestaurant_def
        findById_def Let_def saveRestaurantDocument_def fromCache_def example_defs)

text \<open>
  C6, amended. A successful \<open>deleteRestaurant\<close> replaces the document by itself with
  \<open>isActive\<close> false: the collection keeps the same ids in the same order, and the
  booking and review collections are untouched, so a booking or a review is found by
  its id as before. Afterwards no restaurant with that id, and no inactive restaurant at
  all, is a row of a nearby search or of a listing computed from the store (an answer
  without the \<open>cache\<close> flag).
\<close>

theorem deleteRestaurant_soft:
  assumes del: "deleteRestaurant e owner i st = (Json 200 p, st1)"
  shows "(\<exists>found. find (\<lambda>r. rid r = i) (restaurants st) = Some found \<and>
            restaurants st1 =
              map (\<lambda>x. if rid x = i then found\<lparr>isActive := False\<rparr> else x) (restaurants st)) \<and>
         map rid (restaurants st1) = map rid (restaurants st) \<and>
         (\<forall>r \<in> set (restaurants st1). rid r = i \<longrightarrow> \<not> isActive r) \<and>
         bookings st1 = bookings st \<and> reviews st1 = reviews st \<and>
         fst (getBookingById c b st1) = fst (getBookingById c b st) \<and>
         findReviewById (reviews st1) v = findReviewById (reviews st) v \<and>
         (\<forall>rows n s. getNearbyRestaurants e q st1 = (Json 200 (NearbyBody rows n), s) \<longrightarrow>
            (\<forall>rd \<in> set rows. rid (fst rd) \<noteq> i \<and> isActive (fst rd))) \<and>
         (\<forall>rows n s. getRestaurants e q st1 = (Json 200 (ListBody rows n False), s) \<longrightarrow>
            (\<forall>r \<in> set rows. rid r \<noteq> i \<and> isActive r))"
proof -
  from deleteRestaurant_success [OF del] obtain found where
    found: "find (\<lambda>r. rid r = i) (restaurants st) = Some found"
    and st1: "st1 = st\<lparr>restaurants :=
                     saveRestaurantDocument (found\<lparr>isActive := False\<rparr>) (restaurants st)\<rparr>"
    by blast
  from found have i: "rid found = i" using find_SomeD by fastforce
  have docs: "restaurants st1 =
     map (\<lambda>x. if rid x = i then found\<lparr>isActive := False\<rparr> else x) (restaurants st)"
    by (simp add: st1 saveRestaurantDocument_def i)
  have ids: "map rid (restaurants st1) = map rid (restaurants st)"
    by (simp add: st1 saveRestaurantDocument_ids)
  have off: "\<forall>r \<in> set (restaurants st1). rid r = i \<longrightarrow> \<not> isActive r"
    using saveRestaurantDocument_inactive [of _ found "restaurants st"] i
    by (auto simp: st1)
  have same: "bookings st1 = bookings st" "reviews st1 = reviews st"
    by (simp_all add: st1)
  have booking: "fst (getBookingById c b st1) = fst (getBookingById c b st)"
    unfolding st1 by (rule getBookingById_after_save [OF found])
  have near: "\<forall>rows n s. getNearbyRestaurants e q st1 = (Json 200 (NearbyBody rows n), s) \<longrightarrow>
            (\<forall>rd \<in> set rows. rid (fst rd) \<noteq> i \<and> isActive (fst rd))"
    using getNearbyRestaurants_active off by blast
  have listed: "\<forall>rows n s. getRestaurants e q st1 = (Json 200 (ListBody rows n False), s) \<longrightarrow>
            (\<forall>r \<in> set rows. rid r \<noteq> i \<and> isActive r)"
    using getRestaurants_computed queryRestaurants_active off by blast
  from found docs ids off same booking near listed show ?thesis
    by simp
qed


lemma example_delete:
  "deleteRestaurant example_env ''o1'' ''r1'' example_state =
     (Json 200 (MessageBody ''Restaurant deleted successfully''),
      example_state\<lparr>restaurants :=
        [example_restaurant\<lparr>isActive := False\<rparr>, restaurant_at ''r2'' ''Anchor'' 1 True,
         restaurant_at ''r3'' ''Zen'' 9 True, restaurant_at ''r4'' ''Yard'' 0 False]\<rparr>)"
  by (simp add: deleteRestaurant_def findById_def saveRestaurantDocument_def example_defs)

theorem deleteRestaurant_soft_witness:
  "\<exists>st1. deleteRestaurant example_env ''o1'' ''r1'' example_state =
           (Json 200 (MessageBody ''Restaurant deleted successfully''), st1) \<and>
         map rid (restaurants st1) = [''r1'', ''r2'', ''r3'', ''r4''] \<and>
         map isActive (restaurants st1) = [False, True, True, False] \<and>
         fst (getBookingById ''c1'' ''b0'' st1) =
           Json 200 (BookingBody [] (example_booking ''b0'' ''c1'' 10) (Some ''Bistro'')) \<and>
         findReviewById (reviews st1) ''v1'' = findReviewById (reviews example_state) ''v1'' \<and>
         fst (getRestaurants example_env example_query st1) =
           Json 200 (ListBody [restaurant_at ''r2'' ''Anchor'' 1 True,
                               restaurant_at ''r3'' ''Zen'' 9 True] 2 False) \<and>
         fst (getNearbyRestaurants example_env nearby_query st1) =
           Json 200 (NearbyBody [(restaurant_at ''r2'' ''Anchor'' 1 True, 1000)] 1)"
proof -
  let ?st1 = "example_state\<lparr>restaurants :=
        [example_restaurant\<lparr>isActive := False\<rparr>, restaurant_at ''r2'' ''Anchor'' 1 True,
         restaurant_at ''r3'' ''Zen'' 9 True, restaurant_at ''r4'' ''Yard'' 0 False]\<rparr>"
  from deleteRestaurant_soft [OF example_delete, of "''c1''" "''b0''" "''v1''"]
  have ids: "map rid (restaurants ?st1) = map rid (restaurants example_state)"
    and booking: "fst (getBookingById ''c1'' ''b0'' ?st1) =
                  fst (getBookingById ''c1'' ''b0'' example_state)"
    and rev: "findReviewById (reviews ?st1) ''v1'' =
              findReviewById (reviews example_state) ''v1''"
    by blast+
  have ids': "map rid (restaurants example_state) = [''r1'', ''r2'', ''r3'', ''r4'']"
    by (simp add: example_defs)
  have act: "map isActive (restaurants ?st1) = [False, True, True, False]"
    by (simp add: example_defs)
  have booking': "fst (getBookingById ''c1'' ''b0'' example_state) =
           Json 200 (BookingBody [] (example_booking ''b0'' ''c1'' 10) (Some ''Bistro''))"
    by (simp add: getBookingById_def findUserBookingById_def populateRestaurant_def
        example_defs)
  have listing: "fst (getRestaurants example_env example_query ?st1) =
           Json 200 (ListBody [restaurant_at ''r2'' ''Anchor'' 1 True,
                               restaurant_at ''r3'' ''Zen'' 9 True] 2 False)"
    by (simp add: getRestaurants_def queryRestaurants_def noFilters_def findPage_def
      cuisineMatches_def priceMatches_def priceCastFails_def present_def
      orDefault_def skipOf_def Let_def example_defs)
  have nearby: "fst (getNearbyRestaurants example_env nearby_query ?st1) =
           Json 200 (NearbyBody [(restaurant_at ''r2'' ''Anchor'' 1 True, 1000)] 1)"
    by (simp add: getNearbyRestaurants_def nearbyAggregate_def geoNear_def validPoint_def
      withDistance_def nearbyFilter_def cuisineMatches_def priceMatches_def priceCastFails_def present_def
      orDefault_def skipOf_def aggregatePage_def Let_def nearby_query_def example_defs)
  from example_delete ids ids' act booking booking' rev listing nearby
  show ?thesis by auto
qed

end
